theory Spec2Isabelle
  imports Main "HOL-Library.Sublist"
begin

section \<open>The collaborators of the main window\<close>

text \<open>
  \<^verbatim>\<open>MainWindow.cpp\<close> drives a directory tree (\<^verbatim>\<open>DirTree\<close>), a selection model, a tree view,
  a treemap view and a handful of helper objects through pointers. The classes behind those
  pointers are declared in other files; the model keeps of each one the observations that
  \<^verbatim>\<open>MainWindow.cpp\<close> reads, as record fields, and logs every call that \<^verbatim>\<open>MainWindow.cpp\<close> makes
  on them as an \<open>effect\<close>, in call order.

  A \<^verbatim>\<open>FileInfo *\<close> is a \<open>FileInfo option\<close> (\<open>None\<close> is the null pointer); the fields are the
  getters that the main window calls.
\<close>

record FileInfo =
  url :: string
  treeLevel :: int
  isDir :: bool
  isPkgInfo :: bool
  isPseudoDir :: bool
  isExcluded :: bool
  isMountPoint :: bool
  errSubDirCount :: int

text \<open>
  \<^verbatim>\<open>FileInfoSet\<close> is a set of item pointers; the model keeps it as a list.

  Modelled from the spec: \<^verbatim>\<open>FileInfoSet::first()\<close>, \<^verbatim>\<open>containsPseudoDir()\<close> and
  \<^verbatim>\<open>containsPkg()\<close> are declared in \<^verbatim>\<open>FileInfoSet.h\<close>, which is not part of the sources at
  hand. \<open>first\<close> is the null pointer on an empty set; the other two say whether one of the
  selected items is a pseudo directory, respectively a package entry.
\<close>

definition first :: "FileInfo list \<Rightarrow> FileInfo option" where
  "first items = (case items of [] \<Rightarrow> None | item # _ \<Rightarrow> Some item)"

definition containsPseudoDir :: "FileInfo list \<Rightarrow> bool" where
  "containsPseudoDir items = (filter isPseudoDir items \<noteq> [])"

definition containsPkg :: "FileInfo list \<Rightarrow> bool" where
  "containsPkg items = (filter isPkgInfo items \<noteq> [])"

text \<open>
  The directory tree: \<open>isBusy\<close>, \<open>treeUrl\<close> (\<^verbatim>\<open>DirTree::url()\<close>) and \<open>firstToplevel\<close> are the
  getters of the source; \<open>treeItems\<close> are the items that can be looked up.

  Modelled from the spec: \<^verbatim>\<open>DirTree::locate()\<close> is declared in \<^verbatim>\<open>DirTree.h\<close>, which is not part
  of the sources at hand; the spec gives it as the tree lookup capability
  \<^verbatim>\<open>locate(pathOrUrl) -> optional item\<close>, by stable path identity.
\<close>

record DirTree =
  isBusy :: bool
  treeUrl :: string
  firstToplevel :: "FileInfo option"
  treeItems :: "FileInfo list"

definition locate :: "DirTree \<Rightarrow> string \<Rightarrow> FileInfo option" where
  "locate tree u = find (\<lambda>item. url item = u) (treeItems tree)"

record SelectionModel =
  currentItem :: "FileInfo option"
  currentBranch :: "FileInfo option"
  selectedItems :: "FileInfo list"

text \<open>
  Modelled from the spec: \<^verbatim>\<open>SelectionModel::setCurrentBranch()\<close> is declared in
  \<^verbatim>\<open>SelectionModel.h\<close>, which is not part of the sources at hand. In the spec's words the
  resolved item becomes the current selection: it is the current branch, the current item and
  the one selected item. The change notifications that the selection model emits
  (\<^verbatim>\<open>currentItemChanged()\<close>, \<^verbatim>\<open>selectionChanged()\<close>) reach the window as events of their own,
  see \<open>event\<close> below; no property below relies on their not arriving.
\<close>

definition setCurrentBranch :: "FileInfo \<Rightarrow> SelectionModel \<Rightarrow> SelectionModel" where
  "setCurrentBranch item sm =
     sm\<lparr>currentBranch := Some item, currentItem := Some item, selectedItems := [item]\<rparr>"

text \<open>
  Modelled from the spec: the class of \<^verbatim>\<open>_futureSelection\<close> is declared in a header that is not
  part of the sources at hand. The spec's FutureSelection holds \<open>targetUrl\<close> (empty: nothing
  is pending) and \<open>useRootFallback\<close>, with the operations \<^verbatim>\<open>set(item)\<close>, \<^verbatim>\<open>clear()\<close>, \<^verbatim>\<open>isEmpty()\<close>
  and \<^verbatim>\<open>resolve(tree)\<close>; the source calls the last one \<^verbatim>\<open>subtree()\<close>. Resolving looks the target
  up in the tree by its path; when that fails, the result is the root of the scan if
  \<open>useRootFallback\<close> is set, and no item otherwise. Resolving is a lookup: clearing is the
  separate operation \<^verbatim>\<open>clear()\<close>.
\<close>

record FutureSelection =
  targetUrl :: string
  useRootFallback :: bool

definition FutureSelection_set :: "FileInfo option \<Rightarrow> FutureSelection \<Rightarrow> FutureSelection" where
  "FutureSelection_set item fs =
     (case item of None \<Rightarrow> fs\<lparr>targetUrl := []\<rparr> | Some i \<Rightarrow> fs\<lparr>targetUrl := url i\<rparr>)"

definition FutureSelection_clear :: "FutureSelection \<Rightarrow> FutureSelection" where
  "FutureSelection_clear fs = fs\<lparr>targetUrl := []\<rparr>"

definition FutureSelection_isEmpty :: "FutureSelection \<Rightarrow> bool" where
  "FutureSelection_isEmpty fs = (targetUrl fs = [])"

definition setUseRootFallback :: "bool \<Rightarrow> FutureSelection \<Rightarrow> FutureSelection" where
  "setUseRootFallback b fs = fs\<lparr>useRootFallback := b\<rparr>"

definition subtree :: "FutureSelection \<Rightarrow> DirTree \<Rightarrow> FileInfo option" where
  "subtree fs tree =
     (if FutureSelection_isEmpty fs then None
      else case locate tree (targetUrl fs) of
             Some item \<Rightarrow> Some item
           | None \<Rightarrow> if useRootFallback fs then firstToplevel tree else None)"

text \<open>
  Modelled from the spec: \<^verbatim>\<open>HistoryButtons\<close> is declared in a header that is not part of the
  sources at hand. The spec's HistoryStack is a linear stack of visited locations with a
  cursor; recording a location drops what lies after the cursor and appends, \<^verbatim>\<open>clear()\<close>
  empties the stack. \<^verbatim>\<open>HistoryButtons::updateActions()\<close>, which \<^verbatim>\<open>MainWindow::updateActions()\<close>
  calls last, enables the back and forward actions as \<open>canGoBack\<close> and \<open>canGoForward\<close> say.
\<close>

record HistoryButtons =
  history :: "string list"
  historyIndex :: nat

definition clearHistory :: "HistoryButtons \<Rightarrow> HistoryButtons" where
  "clearHistory h = \<lparr>history = [], historyIndex = 0\<rparr>"

definition addToHistory :: "FileInfo option \<Rightarrow> HistoryButtons \<Rightarrow> HistoryButtons" where
  "addToHistory item h =
     (case item of
        None \<Rightarrow> h
      | Some i \<Rightarrow>
          (let kept = take (Suc (historyIndex h)) (history h)
           in \<lparr>history = kept @ [url i], historyIndex = length kept\<rparr>))"

definition canGoBack :: "HistoryButtons \<Rightarrow> bool" where
  "canGoBack h = (0 < historyIndex h)"

definition canGoForward :: "HistoryButtons \<Rightarrow> bool" where
  "canGoForward h = (Suc (historyIndex h) < length (history h))"

text \<open>The treemap view, as far as \<^verbatim>\<open>updateActions()\<close> reads it.\<close>

record TreemapView =
  treemapVisible :: bool
  canZoomIn :: bool
  canZoomOut :: bool

section \<open>The state of the main window\<close>

text \<open>The enabled flag of every action that \<^verbatim>\<open>updateActions()\<close> sets.\<close>

record Actions =
  actionStopReading :: bool
  actionRefreshAll :: bool
  actionAskReadCache :: bool
  actionAskWriteCache :: bool
  actionCopyPathToClipboard :: bool
  actionGoUp :: bool
  actionGoToToplevel :: bool
  actionMoveToTrash :: bool
  actionRefreshSelected :: bool
  actionContinueReadingAtMountPoint :: bool
  actionReadExcludedDirectory :: bool
  actionFileSizeStats :: bool
  actionFileTypeStats :: bool
  actionFileAgeStats :: bool
  actionTreemapAsSidePanel :: bool
  actionTreemapZoomIn :: bool
  actionTreemapZoomOut :: bool
  actionResetTreemapZoom :: bool
  actionTreemapRebuild :: bool
  actionGoBack :: bool
  actionGoForward :: bool

datatype DataColumn = NameCol | PercentNumCol

datatype SortOrder = AscendingOrder | DescendingOrder

text \<open>
  The calls that the main window makes on its widgets and on the scanning engine. Texts of
  messages are the source's format strings, without their arguments.
  \<open>UpdateWindowTitleToTreeUrl\<close> is \<^verbatim>\<open>updateWindowTitle( app()->dirTree()->url() )\<close> right
  after the engine was asked to open a URL: the title is the URL that the engine then reports.
\<close>

datatype effect =
    ActionsUpdated
  | TreemapEnable
  | TreemapDisable
  | UnreadableDirsWindowClose
  | StopWatchStart
  | UpdateTimerStart
  | UpdateTimerStop
  | TreeExpandTimerStart nat
  | TreeExpandTimerStop
  | SortByColumn DataColumn SortOrder
  | CollapseAll
  | ExpandToDepth int
  | SelectCurrentBranch FileInfo
  | SetExpanded FileInfo bool
  | ShowDetails "FileInfo option"
  | ShowDetailsSet "FileInfo list"
  | StatusBarShowMessage string
  | StatusBarClearMessage
  | BreadcrumbSetPath "FileInfo option"
  | UpdateWindowTitle string
  | UpdateWindowTitleToTreeUrl
  | ErrorPopup string
  | PanelMessageAdd
  | TreeReset
  | TreeSetCrossFilesystems bool
  | TreeSetExcludeRules
  | TreeSetFilters
  | TreeAbortReading
  | TreeSendFinished
  | TreeReadCache string
  | ModelClear
  | ModelOpenUrl string
  | ModelReadPkg string
  | ModelRefreshSelected

text \<open>
  The members of \<^verbatim>\<open>MainWindow\<close> that the session logic reads or writes. \<open>dirPermissionsWarning\<close>
  and \<open>unreadableDirsWindow\<close> are guarded pointers: the flag says that the pointer is not null.
  The two timers are \<open>True\<close> while they are active. \<open>effects\<close> is the log of calls, oldest first.
\<close>

record MainWindow =
  enableDirPermissionsWarning :: bool
  dirPermissionsWarning :: bool
  unreadableDirsWindow :: bool
  futureSelection :: FutureSelection
  updateTimer :: bool
  treeExpandTimer :: bool
  historyButtons :: HistoryButtons
  dirTree :: DirTree
  selectionModel :: SelectionModel
  treemapView :: TreemapView
  actionShowTreemap :: bool
  fileDetailsViewVisible :: bool
  actions :: Actions
  effects :: "effect list"

text \<open>
  What the source takes from outside the process or from functions declared elsewhere:
  \<^verbatim>\<open>PkgFilter::isPkgUrl()\<close>, whether \<^verbatim>\<open>DirTreeModel::openUrl()\<close> throws
  \<^verbatim>\<open>SysCallFailedException\<close> for a URL, and whether there is a primary package manager.
\<close>

record Env =
  isPkgUrl :: "string \<Rightarrow> bool"
  openUrlThrows :: "string \<Rightarrow> bool"
  primaryPkgManager :: bool

datatype error = SysCallFailedException string

definition emit :: "effect \<Rightarrow> MainWindow \<Rightarrow> MainWindow" where
  "emit e s = s\<lparr>effects := effects s @ [e]\<rparr>"

section \<open>Action availability\<close>

definition updateActions :: "MainWindow \<Rightarrow> MainWindow" where
  "updateActions s =
     (let reading = isBusy (dirTree s);
          current = currentItem (selectionModel s);
          toplevel = firstToplevel (dirTree s);
          pkgView = (case toplevel of None \<Rightarrow> False | Some t \<Rightarrow> isPkgInfo t);
          selected = selectedItems (selectionModel s);
          sel = first selected;
          selSize = length selected;
          oneDirSelected =
            (selSize = 1 \<and> (case sel of None \<Rightarrow> False | Some i \<Rightarrow> isDir i \<and> \<not> isPkgInfo i));
          pseudoDirSelected = containsPseudoDir selected;
          pkgSelected = containsPkg selected;
          nothingOrOneDir = (selected = [] \<or> oneDirSelected);
          showingTreemap = treemapVisible (treemapView s)
      in emit ActionsUpdated (s\<lparr>actions :=
           \<lparr>actionStopReading = reading,
            actionRefreshAll = (\<not> reading),
            actionAskReadCache = (\<not> reading),
            actionAskWriteCache = (\<not> reading),
            actionCopyPathToClipboard = (current \<noteq> None),
            actionGoUp = (case current of None \<Rightarrow> False | Some c \<Rightarrow> 1 < treeLevel c),
            actionGoToToplevel =
              (toplevel \<noteq> None \<and> (case current of None \<Rightarrow> True | Some c \<Rightarrow> 1 < treeLevel c)),
            actionMoveToTrash =
              (sel \<noteq> None \<and> \<not> pseudoDirSelected \<and> \<not> pkgSelected \<and> \<not> reading),
            actionRefreshSelected =
              (selSize = 1
               \<and> (case sel of None \<Rightarrow> False | Some i \<Rightarrow> \<not> isExcluded i \<and> \<not> isMountPoint i)
               \<and> \<not> pkgView),
            actionContinueReadingAtMountPoint =
              (oneDirSelected \<and> (case sel of None \<Rightarrow> False | Some i \<Rightarrow> isMountPoint i)),
            actionReadExcludedDirectory =
              (oneDirSelected \<and> (case sel of None \<Rightarrow> False | Some i \<Rightarrow> isExcluded i)),
            actionFileSizeStats = (\<not> reading \<and> nothingOrOneDir),
            actionFileTypeStats = (\<not> reading \<and> nothingOrOneDir),
            actionFileAgeStats = (\<not> reading \<and> nothingOrOneDir),
            actionTreemapAsSidePanel = showingTreemap,
            actionTreemapZoomIn = (showingTreemap \<and> canZoomIn (treemapView s)),
            actionTreemapZoomOut = (showingTreemap \<and> canZoomOut (treemapView s)),
            actionResetTreemapZoom = (showingTreemap \<and> canZoomOut (treemapView s)),
            actionTreemapRebuild = showingTreemap,
            actionGoBack = canGoBack (historyButtons s),
            actionGoForward = canGoForward (historyButtons s)\<rparr>\<rparr>))"

section \<open>Busy and idle display\<close>

definition showTreemapView :: "MainWindow \<Rightarrow> MainWindow" where
  "showTreemapView s = (if actionShowTreemap s then emit TreemapEnable s else emit TreemapDisable s)"

definition expandTreeToLevel :: "int \<Rightarrow> MainWindow \<Rightarrow> MainWindow" where
  "expandTreeToLevel level s =
     (if level < 1 then emit CollapseAll s else emit (ExpandToDepth (level - 1)) s)"

definition busyDisplay :: "Env \<Rightarrow> MainWindow \<Rightarrow> MainWindow" where
  "busyDisplay env s =
     (let s1 = updateActions (emit TreemapDisable s);
          s2 = (if unreadableDirsWindow s1
                then (emit UnreadableDirsWindowClose s1)\<lparr>unreadableDirsWindow := False\<rparr>
                else s1);
          s3 = (emit UpdateTimerStart s2)\<lparr>updateTimer := True\<rparr>;
          s4 = emit (SortByColumn NameCol AscendingOrder) s3
      in if \<not> isPkgUrl env (treeUrl (dirTree s4)) \<and> currentBranch (selectionModel s4) = None
         then (emit (TreeExpandTimerStart 200) s4)\<lparr>treeExpandTimer := True\<rparr>
         else s4)"

definition applyFutureSelection :: "MainWindow \<Rightarrow> MainWindow" where
  "applyFutureSelection s =
     (case subtree (futureSelection s) (dirTree s) of
        None \<Rightarrow> s
      | Some sel \<Rightarrow>
          (let s1 = (emit TreeExpandTimerStop s)\<lparr>treeExpandTimer := False\<rparr>;
               s2 = s1\<lparr>futureSelection := FutureSelection_clear (futureSelection s1)\<rparr>;
               s3 = emit (SelectCurrentBranch sel)
                      (s2\<lparr>selectionModel := setCurrentBranch sel (selectionModel s2)\<rparr>)
           in if isMountPoint sel then emit (SetExpanded sel True) s3 else s3))"

definition updateFileDetailsView :: "MainWindow \<Rightarrow> MainWindow" where
  "updateFileDetailsView s =
     (if fileDetailsViewVisible s
      then (let sel = selectedItems (selectionModel s)
            in if sel = [] then emit (ShowDetails (currentItem (selectionModel s))) s
               else if length sel = 1 then emit (ShowDetails (first sel)) s
               else emit (ShowDetailsSet sel) s)
      else s)"

definition idleDisplay :: "MainWindow \<Rightarrow> MainWindow" where
  "idleDisplay s =
     (let s1 = updateActions s;
          s2 = (emit UpdateTimerStop s1)\<lparr>updateTimer := False\<rparr>;
          s3 = emit (SortByColumn PercentNumCol DescendingOrder) s2;
          s4 = (if \<not> FutureSelection_isEmpty (futureSelection s3)
                then applyFutureSelection ((emit TreeExpandTimerStop s3)\<lparr>treeExpandTimer := False\<rparr>)
                else if currentBranch (selectionModel s3) = None
                then expandTreeToLevel 1 s3
                else s3)
      in showTreemapView (updateFileDetailsView s4))"

section \<open>Scan lifecycle notifications\<close>

definition showDirPermissionsWarning :: "MainWindow \<Rightarrow> MainWindow" where
  "showDirPermissionsWarning s =
     (if dirPermissionsWarning s \<or> \<not> enableDirPermissionsWarning s then s
      else (emit PanelMessageAdd s)
             \<lparr>dirPermissionsWarning := True, enableDirPermissionsWarning := False\<rparr>)"

definition startingReading :: "Env \<Rightarrow> MainWindow \<Rightarrow> MainWindow" where
  "startingReading env s = busyDisplay env (emit StopWatchStart s)"

definition readingFinished :: "MainWindow \<Rightarrow> MainWindow" where
  "readingFinished s =
     (let s1 = emit (StatusBarShowMessage ''Finished. Elapsed time: %1'') (idleDisplay s)
      in if (case firstToplevel (dirTree s1) of None \<Rightarrow> False | Some t \<Rightarrow> 0 < errSubDirCount t)
         then showDirPermissionsWarning s1
         else s1)"

definition readingAborted :: "MainWindow \<Rightarrow> MainWindow" where
  "readingAborted s = emit (StatusBarShowMessage ''Aborted. Elapsed time: %1'') (idleDisplay s)"

text \<open>
  The one-shot timer \<^verbatim>\<open>_treeExpandTimer\<close> is connected to \<^verbatim>\<open>actionExpandTreeLevel1\<close>, which is
  connected to \<^verbatim>\<open>expandTreeToLevel( 1 )\<close>. A single-shot timer is inactive once it has fired.
\<close>

definition treeExpandTimerTimeout :: "MainWindow \<Rightarrow> MainWindow" where
  "treeExpandTimerTimeout s = expandTreeToLevel 1 (s\<lparr>treeExpandTimer := False\<rparr>)"

text \<open>
  Modelled from the spec: the busy flag belongs to the scanning engine (\<^verbatim>\<open>DirTree\<close>, declared
  in \<^verbatim>\<open>DirTree.h\<close>, which is not part of the sources at hand). In the spec's words
  \<^verbatim>\<open>beginSession\<close> sets the state to Busy and \<^verbatim>\<open>onScanFinished\<close>/\<^verbatim>\<open>onScanAborted\<close> set it to
  Idle; the engine's three notifications are connected to the slots \<^verbatim>\<open>startingReading()\<close>,
  \<^verbatim>\<open>readingFinished()\<close> and \<^verbatim>\<open>readingAborted()\<close>.
\<close>

definition setBusy :: "bool \<Rightarrow> MainWindow \<Rightarrow> MainWindow" where
  "setBusy b s = s\<lparr>dirTree := (dirTree s)\<lparr>isBusy := b\<rparr>\<rparr>"

definition beginSession :: "Env \<Rightarrow> MainWindow \<Rightarrow> MainWindow" where
  "beginSession env s = startingReading env (setBusy True s)"

definition onScanFinished :: "MainWindow \<Rightarrow> MainWindow" where
  "onScanFinished s = readingFinished (setBusy False s)"

definition onScanAborted :: "MainWindow \<Rightarrow> MainWindow" where
  "onScanAborted s = readingAborted (setBusy False s)"

definition stopReading :: "MainWindow \<Rightarrow> MainWindow" where
  "stopReading s =
     (if isBusy (dirTree s)
      then emit (StatusBarShowMessage ''Reading aborted.'') (emit TreeAbortReading s)
      else s)"

section \<open>Opening and refreshing\<close>

definition isUnpkgUrl :: "string \<Rightarrow> bool" where
  "isUnpkgUrl u = (take 7 u = ''unpkg:/'')"

definition readPkg :: "string \<Rightarrow> MainWindow \<Rightarrow> MainWindow" where
  "readPkg pkgUrl s = emit (ModelReadPkg pkgUrl) (expandTreeToLevel 0 (emit (UpdateWindowTitle pkgUrl) s))"

text \<open>
  \<^verbatim>\<open>DirTree::sendFinished()\<close> emits the engine's \<^verbatim>\<open>finished()\<close> notification, which is
  delivered to \<^verbatim>\<open>readingFinished()\<close> before the call returns.
\<close>

definition sendFinished :: "MainWindow \<Rightarrow> MainWindow" where
  "sendFinished s = onScanFinished (emit TreeSendFinished s)"

definition showUnpkgFiles :: "Env \<Rightarrow> string \<Rightarrow> MainWindow \<Rightarrow> MainWindow" where
  "showUnpkgFiles env startingDir s =
     (if \<not> primaryPkgManager env then s
      else (let s1 = emit ModelClear s;
                dir = (if take 6 startingDir = ''unpkg:'' then drop 6 startingDir else startingDir);
                s2 = emit TreeSetFilters (emit TreeSetExcludeRules s1);
                s3 = (if openUrlThrows env dir
                      then emit (ErrorPopup ''Could not open directory %1'')
                             (sendFinished (emit (UpdateWindowTitle []) s2))
                      else emit UpdateWindowTitleToTreeUrl (emit (ModelOpenUrl dir) s2))
            in updateActions s3))"

text \<open>
  \<^verbatim>\<open>askOpenDir()\<close> asks the user for a directory, and \<^verbatim>\<open>openDir()\<close> asks again after a failed
  open. The answers of the dialog, in the order in which the user gives them, are the list
  \<open>answers\<close>: a path (empty when the dialog is cancelled) and the cross-filesystems choice.
  When the list is used up the dialog counts as cancelled.
\<close>

fun openUrl :: "Env \<Rightarrow> (string \<times> bool) list \<Rightarrow> string \<Rightarrow> MainWindow \<Rightarrow> MainWindow"
  and openDir :: "Env \<Rightarrow> (string \<times> bool) list \<Rightarrow> string \<Rightarrow> MainWindow \<Rightarrow> MainWindow"
  and askOpenDir :: "Env \<Rightarrow> (string \<times> bool) list \<Rightarrow> MainWindow \<Rightarrow> MainWindow"
where
  "openUrl env answers u s =
     (let s1 = s\<lparr>enableDirPermissionsWarning := True,
                  historyButtons := clearHistory (historyButtons s)\<rparr>
      in if isPkgUrl env u then readPkg u s1
         else if isUnpkgUrl u then showUnpkgFiles env u s1
         else openDir env answers u s1)"
| "openDir env answers u s =
     expandTreeToLevel 1 (updateActions
       (if openUrlThrows env u
        then askOpenDir env answers
               (emit (ErrorPopup ''Could not open directory %1'')
                  (sendFinished (emit (UpdateWindowTitle []) s)))
        else emit UpdateWindowTitleToTreeUrl (emit (ModelOpenUrl u) s)))"
| "askOpenDir env [] s = s"
| "askOpenDir env ((path, crossFilesystems) # answers) s =
     (if path \<noteq> []
      then openUrl env answers path (emit (TreeSetCrossFilesystems crossFilesystems) (emit TreeReset s))
      else s)"

definition askOpenPkg :: "bool \<Rightarrow> string \<Rightarrow> MainWindow \<Rightarrow> MainWindow" where
  "askOpenPkg canceled pkgUrl s = (if \<not> canceled then readPkg pkgUrl (emit TreeReset s) else s)"

definition readCache :: "string \<Rightarrow> MainWindow \<Rightarrow> MainWindow" where
  "readCache cacheFileName s =
     (let s1 = (emit ModelClear s)\<lparr>historyButtons := clearHistory (historyButtons s)\<rparr>
      in if cacheFileName \<noteq> [] then emit (TreeReadCache cacheFileName) s1 else s1)"

definition askReadCache :: "string \<Rightarrow> MainWindow \<Rightarrow> MainWindow" where
  "askReadCache fileName s = updateActions (if fileName \<noteq> [] then readCache fileName s else s)"

text \<open>
  \<^verbatim>\<open>refreshAll()\<close> calls \<^verbatim>\<open>DirTreeModel::openUrl()\<close> outside any \<^verbatim>\<open>try\<close> block: when that call
  throws, the exception leaves the slot, which is the \<open>Inl\<close> result.
\<close>

definition refreshAll :: "Env \<Rightarrow> (string \<times> bool) list \<Rightarrow> MainWindow \<Rightarrow> error + MainWindow" where
  "refreshAll env answers s =
     (let s1 = s\<lparr>enableDirPermissionsWarning := True\<rparr>;
          u = treeUrl (dirTree s1)
      in if u \<noteq> []
         then (if isPkgUrl env u then Inr (updateActions (emit (ModelReadPkg u) s1))
               else if openUrlThrows env u then Inl (SysCallFailedException u)
               else Inr (updateActions (emit (ModelOpenUrl u) s1)))
         else Inr (askOpenDir env answers s1))"

definition refreshSelected :: "Env \<Rightarrow> MainWindow \<Rightarrow> MainWindow" where
  "refreshSelected env s =
     (let s1 = busyDisplay env s;
          s2 = s1\<lparr>futureSelection :=
                  FutureSelection_set (first (selectedItems (selectionModel s1))) (futureSelection s1)\<rparr>
      in updateActions (emit ModelRefreshSelected s2))"

section \<open>Selection notifications\<close>

definition showCurrent :: "FileInfo option \<Rightarrow> MainWindow \<Rightarrow> MainWindow" where
  "showCurrent item s =
     (case item of
        Some i \<Rightarrow> emit (StatusBarShowMessage ''%1  (%2%3)'') s
      | None \<Rightarrow> emit StatusBarClearMessage s)"

definition showSummary :: "MainWindow \<Rightarrow> MainWindow" where
  "showSummary s =
     (if length (selectedItems (selectionModel s)) \<le> 1
      then showCurrent (currentItem (selectionModel s)) s
      else emit (StatusBarShowMessage ''%1 items selected (%2 total)'') s)"

definition selectionChanged :: "MainWindow \<Rightarrow> MainWindow" where
  "selectionChanged s = updateFileDetailsView (showSummary s)"

definition currentItemChanged :: "FileInfo option \<Rightarrow> FileInfo option \<Rightarrow> MainWindow \<Rightarrow> MainWindow" where
  "currentItemChanged newCurrent oldCurrent s =
     (let s1 = showSummary s in if oldCurrent = None then updateFileDetailsView s1 else s1)"

section \<open>The window as an event-driven machine\<close>

text \<open>
  The constructor, as far as the session logic goes: \<open>raw\<close> holds the collaborators that
  the constructor creates and the settings that it reads; the constructor disarms the
  permissions warning, configures the future selection, creates an empty history, disables
  the treemap view unless the show-treemap action is checked, and ends with
  \<^verbatim>\<open>updateActions()\<close>. Timers and guarded pointers start inactive, respectively null.
\<close>

definition MainWindow_ctor :: "MainWindow \<Rightarrow> MainWindow" where
  "MainWindow_ctor raw =
     (let s1 = raw
            \<lparr>enableDirPermissionsWarning := False,
             dirPermissionsWarning := False,
             unreadableDirsWindow := False,
             futureSelection := setUseRootFallback False (futureSelection raw),
             updateTimer := False,
             treeExpandTimer := False,
             historyButtons := \<lparr>history = [], historyIndex = 0\<rparr>,
             effects := []\<rparr>;
          s2 = (if \<not> actionShowTreemap s1 then emit TreemapDisable s1 else s1)
      in updateActions s2)"

text \<open>
  What can happen to the window: the user's commands with the answers given in their
  dialogs, the engine's three notifications, the timeout of the one-shot timer, the two
  signals of the selection model (delivered to the slots in the order in which
  \<^verbatim>\<open>connectSignals()\<close> connects them), the \<^verbatim>\<open>treemapChanged()\<close> signal of the treemap view
  (connected to \<^verbatim>\<open>updateActions()\<close>), the user closing the warning panel (which nulls the
  guarded pointer), and the collaborators changing their own state.
\<close>

datatype event =
    EvOpenUrl string "(string \<times> bool) list"
  | EvAskOpenDir "(string \<times> bool) list"
  | EvAskOpenPkg bool string
  | EvAskReadCache string
  | EvRefreshAll "(string \<times> bool) list"
  | EvRefreshSelected
  | EvStopReading
  | EvScanStarted
  | EvScanFinished
  | EvScanAborted
  | EvTreeExpandTimeout
  | EvSelectionChanged
  | EvCurrentItemChanged "FileInfo option" "FileInfo option"
  | EvTreemapChanged
  | EvPanelClosed
  | EvCollaborators DirTree SelectionModel TreemapView bool bool

fun step :: "Env \<Rightarrow> event \<Rightarrow> MainWindow \<Rightarrow> error + MainWindow" where
  "step env (EvOpenUrl u answers) s = Inr (openUrl env answers u s)"
| "step env (EvAskOpenDir answers) s = Inr (askOpenDir env answers s)"
| "step env (EvAskOpenPkg canceled pkgUrl) s = Inr (askOpenPkg canceled pkgUrl s)"
| "step env (EvAskReadCache fileName) s = Inr (askReadCache fileName s)"
| "step env (EvRefreshAll answers) s = refreshAll env answers s"
| "step env EvRefreshSelected s = Inr (refreshSelected env s)"
| "step env EvStopReading s = Inr (stopReading s)"
| "step env EvScanStarted s = Inr (beginSession env s)"
| "step env EvScanFinished s = Inr (onScanFinished s)"
| "step env EvScanAborted s = Inr (onScanAborted s)"
| "step env EvTreeExpandTimeout s = Inr (if treeExpandTimer s then treeExpandTimerTimeout s else s)"
| "step env EvSelectionChanged s = Inr (selectionChanged (updateActions s))"
| "step env (EvCurrentItemChanged newCurrent oldCurrent) s =
     Inr (currentItemChanged newCurrent oldCurrent
            ((emit (BreadcrumbSetPath newCurrent) (updateActions s))
               \<lparr>historyButtons := addToHistory newCurrent (historyButtons s)\<rparr>))"
| "step env EvTreemapChanged s = Inr (updateActions s)"
| "step env EvPanelClosed s = Inr (s\<lparr>dirPermissionsWarning := False\<rparr>)"
| "step env (EvCollaborators tree sm tm showTreemap detailsVisible) s =
     Inr (s\<lparr>dirTree := tree, selectionModel := sm, treemapView := tm,
            actionShowTreemap := showTreemap, fileDetailsViewVisible := detailsVisible\<rparr>)"

fun run :: "Env \<Rightarrow> event list \<Rightarrow> MainWindow \<Rightarrow> error + MainWindow" where
  "run env [] s = Inr s"
| "run env (e # es) s = (case step env e s of Inl x \<Rightarrow> Inl x | Inr s' \<Rightarrow> run env es s')"

section \<open>Observations used by the properties\<close>

text \<open>
  What \<^verbatim>\<open>updateFileDetailsView()\<close> shows for a selection model when the details view is
  visible, or nothing when it is hidden.
\<close>

definition detailsShown :: "bool \<Rightarrow> SelectionModel \<Rightarrow> effect list" where
  "detailsShown visible sm =
     (if visible
      then (let sel = selectedItems sm
            in if sel = [] then [ShowDetails (currentItem sm)]
               else if length sel = 1 then [ShowDetails (first sel)]
               else [ShowDetailsSet sel])
      else [])"

text \<open>The calls made between an earlier state \<open>s\<close> and a later state \<open>s'\<close>.\<close>

definition newEffects :: "MainWindow \<Rightarrow> MainWindow \<Rightarrow> effect list" where
  "newEffects s s' = drop (length (effects s)) (effects s')"

text \<open>In the log \<open>es\<close> the call \<open>a\<close> is made and the call \<open>b\<close> is made later.\<close>

definition occursBefore :: "effect \<Rightarrow> effect \<Rightarrow> effect list \<Rightarrow> bool" where
  "occursBefore a b es = (b \<in> set (dropWhile (\<lambda>e. e \<noteq> a) es))"

text \<open>How often the permissions warning panel was shown so far.\<close>

definition panelCount :: "MainWindow \<Rightarrow> nat" where
  "panelCount s = length (filter (\<lambda>e. e = PanelMessageAdd) (effects s))"

text \<open>
  The explicit requests for a new top-level open or a refresh of everything: \<^verbatim>\<open>openUrl()\<close>,
  \<^verbatim>\<open>askOpenDir()\<close> (which ends in \<^verbatim>\<open>openUrl()\<close>) and \<^verbatim>\<open>refreshAll()\<close>.
\<close>

fun arming :: "event \<Rightarrow> bool" where
  "arming (EvOpenUrl u answers) = True"
| "arming (EvAskOpenDir answers) = True"
| "arming (EvRefreshAll answers) = True"
| "arming e = False"

text \<open>The calls that select an item or expand or collapse the tree.\<close>

fun selectsOrExpands :: "effect \<Rightarrow> bool" where
  "selectsOrExpands (SelectCurrentBranch item) = True"
| "selectsOrExpands (SetExpanded item b) = True"
| "selectsOrExpands (ExpandToDepth n) = True"
| "selectsOrExpands CollapseAll = True"
| "selectsOrExpands e = False"

section \<open>Concrete windows\<close>

text \<open>
  A scan of \<^verbatim>\<open>/data\<close> with the directory \<^verbatim>\<open>/data/logs\<close> and a mount point \<^verbatim>\<open>/data/mnt\<close>; the same
  tree after \<^verbatim>\<open>/data/logs\<close> was deleted; and windows in the situations that the properties
  below talk about.
\<close>

definition dataDir :: FileInfo where
  "dataDir = \<lparr>url = ''/data'', treeLevel = 1, isDir = True, isPkgInfo = False,
     isPseudoDir = False, isExcluded = False, isMountPoint = False, errSubDirCount = 0\<rparr>"

definition logsDir :: FileInfo where
  "logsDir = \<lparr>url = ''/data/logs'', treeLevel = 2, isDir = True, isPkgInfo = False,
     isPseudoDir = False, isExcluded = False, isMountPoint = False, errSubDirCount = 0\<rparr>"

definition mntDir :: FileInfo where
  "mntDir = \<lparr>url = ''/data/mnt'', treeLevel = 2, isDir = True, isPkgInfo = False,
     isPseudoDir = False, isExcluded = False, isMountPoint = True, errSubDirCount = 0\<rparr>"

definition dataTree :: DirTree where
  "dataTree = \<lparr>isBusy = False, treeUrl = ''/data'', firstToplevel = Some dataDir,
     treeItems = [dataDir, logsDir, mntDir]\<rparr>"

definition dataTreeWithoutLogs :: DirTree where
  "dataTreeWithoutLogs = \<lparr>isBusy = False, treeUrl = ''/data'', firstToplevel = Some dataDir,
     treeItems = [dataDir, mntDir]\<rparr>"

definition env0 :: Env where
  "env0 = \<lparr>isPkgUrl = (\<lambda>u. take 5 u = ''Pkg:/''), openUrlThrows = (\<lambda>u. u = ''/gone''),
     primaryPkgManager = True\<rparr>"

definition noActions :: Actions where
  "noActions = \<lparr>actionStopReading = False, actionRefreshAll = False, actionAskReadCache = False,
     actionAskWriteCache = False, actionCopyPathToClipboard = False, actionGoUp = False,
     actionGoToToplevel = False, actionMoveToTrash = False, actionRefreshSelected = False,
     actionContinueReadingAtMountPoint = False, actionReadExcludedDirectory = False,
     actionFileSizeStats = False, actionFileTypeStats = False, actionFileAgeStats = False,
     actionTreemapAsSidePanel = False, actionTreemapZoomIn = False, actionTreemapZoomOut = False,
     actionResetTreemapZoom = False, actionTreemapRebuild = False, actionGoBack = False,
     actionGoForward = False\<rparr>"

text \<open>Nothing selected, no current branch, nothing pending: the window before a first scan.\<close>

definition coldWindow :: MainWindow where
  "coldWindow = \<lparr>enableDirPermissionsWarning = False, dirPermissionsWarning = False,
     unreadableDirsWindow = False,
     futureSelection = \<lparr>targetUrl = [], useRootFallback = False\<rparr>,
     updateTimer = False, treeExpandTimer = False,
     historyButtons = \<lparr>history = [], historyIndex = 0\<rparr>,
     dirTree = dataTree,
     selectionModel = \<lparr>currentItem = None, currentBranch = None, selectedItems = []\<rparr>,
     treemapView = \<lparr>treemapVisible = True, canZoomIn = True, canZoomOut = False\<rparr>,
     actionShowTreemap = True, fileDetailsViewVisible = True,
     actions = noActions, effects = []\<rparr>"

text \<open>\<^verbatim>\<open>/data/logs\<close> is selected and current, and was visited after \<^verbatim>\<open>/data\<close>.\<close>

definition logsWindow :: MainWindow where
  "logsWindow = coldWindow
     \<lparr>historyButtons := \<lparr>history = [''/data'', ''/data/logs''], historyIndex = 1\<rparr>,
      selectionModel := \<lparr>currentItem = Some logsDir, currentBranch = Some logsDir,
                          selectedItems = [logsDir]\<rparr>\<rparr>"

text \<open>
  A refresh of \<^verbatim>\<open>/data/logs\<close> is under way: the future selection is pending and the engine is
  busy. In \<open>pendingWindow\<close> the rebuilt tree has the directory, in \<open>vanishedWindow\<close> it was
  deleted in the meantime.
\<close>

definition pendingWindow :: MainWindow where
  "pendingWindow = coldWindow
     \<lparr>futureSelection := \<lparr>targetUrl = ''/data/logs'', useRootFallback = False\<rparr>,
      updateTimer := True, treeExpandTimer := True,
      dirTree := dataTree\<lparr>isBusy := True\<rparr>\<rparr>"

definition vanishedWindow :: MainWindow where
  "vanishedWindow = pendingWindow\<lparr>dirTree := dataTreeWithoutLogs\<lparr>isBusy := True\<rparr>\<rparr>"

text \<open>
  The scan of \<^verbatim>\<open>/data\<close> found three directories that could not be read, and the permissions
  warning is armed.
\<close>

definition unreadableTree :: DirTree where
  "unreadableTree = \<lparr>isBusy = False, treeUrl = ''/data'',
     firstToplevel = Some (dataDir\<lparr>errSubDirCount := 3\<rparr>),
     treeItems = [dataDir\<lparr>errSubDirCount := 3\<rparr>, logsDir, mntDir]\<rparr>"

definition armedWindow :: MainWindow where
  "armedWindow = coldWindow\<lparr>enableDirPermissionsWarning := True, dirTree := unreadableTree\<rparr>"

text \<open>
  Two scans finish, the user closes the warning panel in between; then a refresh of the
  selection is requested, started and aborted.
\<close>

definition warningScript :: "event list" where
  "warningScript = [EvScanStarted, EvScanFinished, EvPanelClosed, EvScanStarted, EvScanFinished,
     EvRefreshSelected, EvScanStarted, EvScanAborted]"

text \<open>
  The user selects \<^verbatim>\<open>/data/logs\<close> in a freshly constructed window and asks to refresh it; while
  the engine reads, the directory is deleted, and the rebuilt tree has no such item.
\<close>

definition refreshScript :: "event list" where
  "refreshScript =
     [EvCollaborators dataTree
        \<lparr>currentItem = Some logsDir, currentBranch = Some logsDir, selectedItems = [logsDir]\<rparr>
        \<lparr>treemapVisible = True, canZoomIn = True, canZoomOut = False\<rparr> True True,
      EvRefreshSelected,
      EvCollaborators (dataTreeWithoutLogs\<lparr>isBusy := True\<rparr>)
        \<lparr>currentItem = None, currentBranch = None, selectedItems = []\<rparr>
        \<lparr>treemapVisible = True, canZoomIn = True, canZoomOut = False\<rparr> True True]"

definition afterRefreshScript :: MainWindow where
  "afterRefreshScript =
     (refreshSelected env0
        ((MainWindow_ctor coldWindow)
           \<lparr>dirTree := dataTree,
            selectionModel :=
              \<lparr>currentItem = Some logsDir, currentBranch = Some logsDir, selectedItems = [logsDir]\<rparr>,
            treemapView := \<lparr>treemapVisible = True, canZoomIn = True, canZoomOut = False\<rparr>,
            actionShowTreemap := True, fileDetailsViewVisible := True\<rparr>))
       \<lparr>dirTree := dataTreeWithoutLogs\<lparr>isBusy := True\<rparr>,
        selectionModel := \<lparr>currentItem = None, currentBranch = None, selectedItems = []\<rparr>,
        treemapView := \<lparr>treemapVisible = True, canZoomIn = True, canZoomOut = False\<rparr>,
        actionShowTreemap := True, fileDetailsViewVisible := True\<rparr>"

section \<open>What each operation changes\<close>

lemma updateActions_eq:
  "updateActions s = s\<lparr>actions := actions (updateActions s), effects := effects s @ [ActionsUpdated]\<rparr>"
  by (simp add: updateActions_def Let_def emit_def)
lemma updateActions_frame [simp]:
  "enableDirPermissionsWarning (updateActions s) = enableDirPermissionsWarning s"
  "dirPermissionsWarning (updateActions s) = dirPermissionsWarning s"
  "unreadableDirsWindow (updateActions s) = unreadableDirsWindow s"
  "futureSelection (updateActions s) = futureSelection s"
  "updateTimer (updateActions s) = updateTimer s"
  "treeExpandTimer (updateActions s) = treeExpandTimer s"
  "historyButtons (updateActions s) = historyButtons s"
  "dirTree (updateActions s) = dirTree s"
  "selectionModel (updateActions s) = selectionModel s"
  "treemapView (updateActions s) = treemapView s"
  "actionShowTreemap (updateActions s) = actionShowTreemap s"
  "fileDetailsViewVisible (updateActions s) = fileDetailsViewVisible s"
  "effects (updateActions s) = effects s @ [ActionsUpdated]"
  by (subst updateActions_eq, simp)+
lemma emit_frame [simp]:
  "enableDirPermissionsWarning (emit e s) = enableDirPermissionsWarning s"
  "dirPermissionsWarning (emit e s) = dirPermissionsWarning s"
  "unreadableDirsWindow (emit e s) = unreadableDirsWindow s"
  "futureSelection (emit e s) = futureSelection s"
  "updateTimer (emit e s) = updateTimer s"
  "treeExpandTimer (emit e s) = treeExpandTimer s"
  "historyButtons (emit e s) = historyButtons s"
  "dirTree (emit e s) = dirTree s"
  "selectionModel (emit e s) = selectionModel s"
  "treemapView (emit e s) = treemapView s"
  "actionShowTreemap (emit e s) = actionShowTreemap s"
  "fileDetailsViewVisible (emit e s) = fileDetailsViewVisible s"
  "actions (emit e s) = actions s"
  "effects (emit e s) = effects s @ [e]"
  by (simp_all add: emit_def)

lemma updateActions_actions_cong:
  assumes "dirTree s' = dirTree s" and "selectionModel s' = selectionModel s"
    and "treemapView s' = treemapView s" and "historyButtons s' = historyButtons s"
  shows "actions (updateActions s') = actions (updateActions s)"
  unfolding updateActions_def Let_def emit_def by (simp add: assms)

lemma updateActions_emit [simp]:
  "actions (updateActions (emit e s)) = actions (updateActions s)"
  by (rule updateActions_actions_cong) simp_all

lemma showTreemapView_emit:
  "showTreemapView s = emit (if actionShowTreemap s then TreemapEnable else TreemapDisable) s"
  by (simp add: showTreemapView_def)

lemma expandTreeToLevel_emit:
  "expandTreeToLevel level s = emit (if level < 1 then CollapseAll else ExpandToDepth (level - 1)) s"
  by (simp add: expandTreeToLevel_def)
lemma updateFileDetailsView_frame [simp]:
  "enableDirPermissionsWarning (updateFileDetailsView s) = enableDirPermissionsWarning s"
  "dirPermissionsWarning (updateFileDetailsView s) = dirPermissionsWarning s"
  "unreadableDirsWindow (updateFileDetailsView s) = unreadableDirsWindow s"
  "futureSelection (updateFileDetailsView s) = futureSelection s"
  "updateTimer (updateFileDetailsView s) = updateTimer s"
  "treeExpandTimer (updateFileDetailsView s) = treeExpandTimer s"
  "historyButtons (updateFileDetailsView s) = historyButtons s"
  "dirTree (updateFileDetailsView s) = dirTree s"
  "selectionModel (updateFileDetailsView s) = selectionModel s"
  "treemapView (updateFileDetailsView s) = treemapView s"
  "actionShowTreemap (updateFileDetailsView s) = actionShowTreemap s"
  "fileDetailsViewVisible (updateFileDetailsView s) = fileDetailsViewVisible s"
  "actions (updateFileDetailsView s) = actions s"
  "effects (updateFileDetailsView s) = effects s @ detailsShown (fileDetailsViewVisible s) (selectionModel s)"
  by (simp_all add: updateFileDetailsView_def detailsShown_def Let_def)
lemma applyFutureSelection_frame [simp]:
  "enableDirPermissionsWarning (applyFutureSelection s) = enableDirPermissionsWarning s"
  "dirPermissionsWarning (applyFutureSelection s) = dirPermissionsWarning s"
  "unreadableDirsWindow (applyFutureSelection s) = unreadableDirsWindow s"
  "updateTimer (applyFutureSelection s) = updateTimer s"
  "historyButtons (applyFutureSelection s) = historyButtons s"
  "dirTree (applyFutureSelection s) = dirTree s"
  "treemapView (applyFutureSelection s) = treemapView s"
  "actionShowTreemap (applyFutureSelection s) = actionShowTreemap s"
  "fileDetailsViewVisible (applyFutureSelection s) = fileDetailsViewVisible s"
  "actions (applyFutureSelection s) = actions s"
  by (simp_all add: applyFutureSelection_def Let_def split: option.splits)

lemma applyFutureSelection_changes:
  "futureSelection (applyFutureSelection s) =
     (case subtree (futureSelection s) (dirTree s) of
        None \<Rightarrow> futureSelection s | Some sel \<Rightarrow> FutureSelection_clear (futureSelection s))"
  "treeExpandTimer (applyFutureSelection s) =
     (case subtree (futureSelection s) (dirTree s) of
        None \<Rightarrow> treeExpandTimer s | Some sel \<Rightarrow> False)"
  "selectionModel (applyFutureSelection s) =
     (case subtree (futureSelection s) (dirTree s) of
        None \<Rightarrow> selectionModel s | Some sel \<Rightarrow> setCurrentBranch sel (selectionModel s))"
  "effects (applyFutureSelection s) = effects s @
     (case subtree (futureSelection s) (dirTree s) of
        None \<Rightarrow> []
      | Some sel \<Rightarrow> [TreeExpandTimerStop, SelectCurrentBranch sel]
                      @ (if isMountPoint sel then [SetExpanded sel True] else []))"
  by (simp_all add: applyFutureSelection_def Let_def split: option.splits)

lemmas idle_simps = idleDisplay_def Let_def showTreemapView_emit expandTreeToLevel_emit
  applyFutureSelection_changes
lemma idleDisplay_frame [simp]:
  "enableDirPermissionsWarning (idleDisplay s) = enableDirPermissionsWarning s"
  "dirPermissionsWarning (idleDisplay s) = dirPermissionsWarning s"
  "unreadableDirsWindow (idleDisplay s) = unreadableDirsWindow s"
  "historyButtons (idleDisplay s) = historyButtons s"
  "dirTree (idleDisplay s) = dirTree s"
  "treemapView (idleDisplay s) = treemapView s"
  "actionShowTreemap (idleDisplay s) = actionShowTreemap s"
  "fileDetailsViewVisible (idleDisplay s) = fileDetailsViewVisible s"
  "updateTimer (idleDisplay s) = False"
  "actions (idleDisplay s) = actions (updateActions s)"
  by (simp_all add: idle_simps)

lemma idleDisplay_futureSelection:
  "futureSelection (idleDisplay s) =
     (case subtree (futureSelection s) (dirTree s) of
        None \<Rightarrow> futureSelection s | Some sel \<Rightarrow> FutureSelection_clear (futureSelection s))"
  by (simp add: idle_simps subtree_def cong: option.case_cong)

lemma idleDisplay_treeExpandTimer:
  "treeExpandTimer (idleDisplay s) = (treeExpandTimer s \<and> FutureSelection_isEmpty (futureSelection s))"
  by (simp add: idle_simps split: option.splits)

lemma idleDisplay_selectionModel:
  "selectionModel (idleDisplay s) =
     (case subtree (futureSelection s) (dirTree s) of
        None \<Rightarrow> selectionModel s | Some sel \<Rightarrow> setCurrentBranch sel (selectionModel s))"
  by (simp add: idle_simps subtree_def cong: option.case_cong)

lemma idleDisplay_effects:
  "effects (idleDisplay s) =
     effects s @ [ActionsUpdated, UpdateTimerStop, SortByColumn PercentNumCol DescendingOrder]
     @ (if \<not> FutureSelection_isEmpty (futureSelection s)
        then TreeExpandTimerStop #
             (case subtree (futureSelection s) (dirTree s) of
                None \<Rightarrow> []
              | Some sel \<Rightarrow> [TreeExpandTimerStop, SelectCurrentBranch sel]
                             @ (if isMountPoint sel then [SetExpanded sel True] else []))
        else if currentBranch (selectionModel s) = None then [ExpandToDepth 0] else [])
     @ detailsShown (fileDetailsViewVisible s) (selectionModel (idleDisplay s))
     @ [if actionShowTreemap s then TreemapEnable else TreemapDisable]"
  by (simp add: idleDisplay_selectionModel) (simp add: idle_simps subtree_def cong: option.case_cong)
lemma busyDisplay_frame [simp]:
  "enableDirPermissionsWarning (busyDisplay env s) = enableDirPermissionsWarning s"
  "dirPermissionsWarning (busyDisplay env s) = dirPermissionsWarning s"
  "futureSelection (busyDisplay env s) = futureSelection s"
  "historyButtons (busyDisplay env s) = historyButtons s"
  "dirTree (busyDisplay env s) = dirTree s"
  "selectionModel (busyDisplay env s) = selectionModel s"
  "treemapView (busyDisplay env s) = treemapView s"
  "actionShowTreemap (busyDisplay env s) = actionShowTreemap s"
  "fileDetailsViewVisible (busyDisplay env s) = fileDetailsViewVisible s"
  "updateTimer (busyDisplay env s) = True"
  "unreadableDirsWindow (busyDisplay env s) = False"
  "actions (busyDisplay env s) = actions (updateActions s)"
  by (simp_all add: busyDisplay_def Let_def)

lemma busyDisplay_treeExpandTimer:
  "treeExpandTimer (busyDisplay env s) =
     (treeExpandTimer s \<or> (\<not> isPkgUrl env (treeUrl (dirTree s)) \<and> currentBranch (selectionModel s) = None))"
  by (cases "currentBranch (selectionModel s)") (simp_all add: busyDisplay_def Let_def)

lemma busyDisplay_effects:
  "effects (busyDisplay env s) =
     effects s @ [TreemapDisable, ActionsUpdated]
     @ (if unreadableDirsWindow s then [UnreadableDirsWindowClose] else [])
     @ [UpdateTimerStart, SortByColumn NameCol AscendingOrder]
     @ (if \<not> isPkgUrl env (treeUrl (dirTree s)) \<and> currentBranch (selectionModel s) = None
        then [TreeExpandTimerStart 200] else [])"
  by (simp add: busyDisplay_def Let_def)


section \<open>Action availability: the properties\<close>

text \<open>
  Claim C8. After every recomputation of action availability, move-to-trash is enabled if
  and only if at least one item is selected, none of the selected items is a pseudo
  directory or a package entry, and no scan is in progress.
\<close>

theorem moveToTrash_enabled_iff:
  "actionMoveToTrash (actions (updateActions s)) =
     (selectedItems (selectionModel s) \<noteq> []
      \<and> (\<forall>item \<in> set (selectedItems (selectionModel s)). \<not> isPseudoDir item \<and> \<not> isPkgInfo item)
      \<and> \<not> isBusy (dirTree s))"
  unfolding updateActions_def Let_def emit_def
  by (cases "selectedItems (selectionModel s)")
     (auto simp add: first_def containsPseudoDir_def containsPkg_def filter_empty_conv)

text \<open>
  With \<^verbatim>\<open>/data/logs\<close> selected and the engine idle the action is enabled; it is disabled
  while the engine is busy, and when nothing is selected.
\<close>

theorem moveToTrash_enabled_iff_witness:
  "actionMoveToTrash (actions (updateActions logsWindow))
   \<and> \<not> actionMoveToTrash (actions (updateActions (setBusy True logsWindow)))
   \<and> \<not> actionMoveToTrash (actions (updateActions coldWindow))"
  using moveToTrash_enabled_iff [of logsWindow] moveToTrash_enabled_iff [of "setBusy True logsWindow"]
    moveToTrash_enabled_iff [of coldWindow]
  by (simp add: logsWindow_def coldWindow_def setBusy_def logsDir_def dataTree_def)

text \<open>
  Claim C10. Refresh-selected is enabled exactly when one item is selected, that item is
  neither excluded nor a mount point, and the loaded root is not a package view. The busy
  flag of the engine plays no part in it, whereas refresh-all, read-cache and write-cache
  are enabled exactly when the engine is idle.
\<close>

theorem refreshSelected_enabled_iff:
  "actionRefreshSelected (actions (updateActions s)) =
     ((\<exists>item. selectedItems (selectionModel s) = [item] \<and> \<not> isExcluded item \<and> \<not> isMountPoint item)
      \<and> \<not> (\<exists>t. firstToplevel (dirTree s) = Some t \<and> isPkgInfo t))
   \<and> actionRefreshSelected (actions (updateActions (setBusy b s))) =
       actionRefreshSelected (actions (updateActions s))
   \<and> actionRefreshAll (actions (updateActions s)) = (\<not> isBusy (dirTree s))
   \<and> actionAskReadCache (actions (updateActions s)) = (\<not> isBusy (dirTree s))
   \<and> actionAskWriteCache (actions (updateActions s)) = (\<not> isBusy (dirTree s))"
  unfolding updateActions_def Let_def emit_def setBusy_def
  by (cases "selectedItems (selectionModel s)"; cases "firstToplevel (dirTree s)")
     (auto simp add: first_def split: list.splits)

text \<open>While \<^verbatim>\<open>/data\<close> is being read with \<^verbatim>\<open>/data/logs\<close> selected, only refresh-selected is enabled.\<close>

theorem refreshSelected_enabled_iff_witness:
  "actionRefreshSelected (actions (updateActions (setBusy True logsWindow)))
   \<and> \<not> actionRefreshAll (actions (updateActions (setBusy True logsWindow)))
   \<and> \<not> actionAskReadCache (actions (updateActions (setBusy True logsWindow)))
   \<and> \<not> actionAskWriteCache (actions (updateActions (setBusy True logsWindow)))"
  using refreshSelected_enabled_iff [of "setBusy True logsWindow" True]
  by (simp add: logsWindow_def coldWindow_def setBusy_def logsDir_def dataTree_def dataDir_def)

section \<open>Stopping a scan\<close>

text \<open>
  Claim C9. \<^verbatim>\<open>stopReading()\<close> while the engine is not busy has no effect: the engine is not
  asked to abort, and the state of the window, the log of calls included, stays as it is.
\<close>

theorem stopReading_idle_noop:
  "\<not> isBusy (dirTree s) \<Longrightarrow> stopReading s = s \<and> step env EvStopReading s = Inr s"
  by (simp add: stopReading_def)

theorem stopReading_idle_noop_witness:
  "stopReading logsWindow = logsWindow \<and> step env0 EvStopReading logsWindow = Inr logsWindow
   \<and> newEffects logsWindow (stopReading logsWindow) = []"
  using stopReading_idle_noop [of logsWindow env0]
  by (simp add: logsWindow_def coldWindow_def dataTree_def newEffects_def)

section \<open>What the lifecycle slots change\<close>

lemma setBusy_frame [simp]:
  "enableDirPermissionsWarning (setBusy b s) = enableDirPermissionsWarning s"
  "dirPermissionsWarning (setBusy b s) = dirPermissionsWarning s"
  "unreadableDirsWindow (setBusy b s) = unreadableDirsWindow s"
  "futureSelection (setBusy b s) = futureSelection s"
  "updateTimer (setBusy b s) = updateTimer s"
  "treeExpandTimer (setBusy b s) = treeExpandTimer s"
  "historyButtons (setBusy b s) = historyButtons s"
  "selectionModel (setBusy b s) = selectionModel s"
  "treemapView (setBusy b s) = treemapView s"
  "actionShowTreemap (setBusy b s) = actionShowTreemap s"
  "fileDetailsViewVisible (setBusy b s) = fileDetailsViewVisible s"
  "actions (setBusy b s) = actions s"
  "effects (setBusy b s) = effects s"
  "isBusy (dirTree (setBusy b s)) = b"
  "treeUrl (dirTree (setBusy b s)) = treeUrl (dirTree s)"
  "firstToplevel (dirTree (setBusy b s)) = firstToplevel (dirTree s)"
  "treeItems (dirTree (setBusy b s)) = treeItems (dirTree s)"
  "subtree fs (dirTree (setBusy b s)) = subtree fs (dirTree s)"
  by (simp_all add: setBusy_def subtree_def locate_def cong: option.case_cong)

lemma showDirPermissionsWarning_frame [simp]:
  "unreadableDirsWindow (showDirPermissionsWarning s) = unreadableDirsWindow s"
  "futureSelection (showDirPermissionsWarning s) = futureSelection s"
  "updateTimer (showDirPermissionsWarning s) = updateTimer s"
  "treeExpandTimer (showDirPermissionsWarning s) = treeExpandTimer s"
  "historyButtons (showDirPermissionsWarning s) = historyButtons s"
  "dirTree (showDirPermissionsWarning s) = dirTree s"
  "selectionModel (showDirPermissionsWarning s) = selectionModel s"
  "treemapView (showDirPermissionsWarning s) = treemapView s"
  "actionShowTreemap (showDirPermissionsWarning s) = actionShowTreemap s"
  "fileDetailsViewVisible (showDirPermissionsWarning s) = fileDetailsViewVisible s"
  "actions (showDirPermissionsWarning s) = actions s"
  by (simp_all add: showDirPermissionsWarning_def)

lemma readingAborted_frame [simp]:
  "enableDirPermissionsWarning (readingAborted s) = enableDirPermissionsWarning s"
  "dirPermissionsWarning (readingAborted s) = dirPermissionsWarning s"
  "unreadableDirsWindow (readingAborted s) = unreadableDirsWindow s"
  "historyButtons (readingAborted s) = historyButtons s"
  "dirTree (readingAborted s) = dirTree s"
  "treemapView (readingAborted s) = treemapView s"
  "actionShowTreemap (readingAborted s) = actionShowTreemap s"
  "fileDetailsViewVisible (readingAborted s) = fileDetailsViewVisible s"
  "updateTimer (readingAborted s) = False"
  "actions (readingAborted s) = actions (updateActions s)"
  "futureSelection (readingAborted s) = futureSelection (idleDisplay s)"
  "treeExpandTimer (readingAborted s) = treeExpandTimer (idleDisplay s)"
  "selectionModel (readingAborted s) = selectionModel (idleDisplay s)"
  "effects (readingAborted s) = effects (idleDisplay s) @ [StatusBarShowMessage ''Aborted. Elapsed time: %1'']"
  by (simp_all add: readingAborted_def)

lemma readingFinished_frame [simp]:
  "unreadableDirsWindow (readingFinished s) = unreadableDirsWindow s"
  "historyButtons (readingFinished s) = historyButtons s"
  "dirTree (readingFinished s) = dirTree s"
  "treemapView (readingFinished s) = treemapView s"
  "actionShowTreemap (readingFinished s) = actionShowTreemap s"
  "fileDetailsViewVisible (readingFinished s) = fileDetailsViewVisible s"
  "updateTimer (readingFinished s) = False"
  "actions (readingFinished s) = actions (updateActions s)"
  "futureSelection (readingFinished s) = futureSelection (idleDisplay s)"
  "treeExpandTimer (readingFinished s) = treeExpandTimer (idleDisplay s)"
  "selectionModel (readingFinished s) = selectionModel (idleDisplay s)"
  by (simp_all add: readingFinished_def Let_def)

lemma readingFinished_effects:
  "effects (readingFinished s) =
     effects (idleDisplay s) @ [StatusBarShowMessage ''Finished. Elapsed time: %1'']
     @ (if (case firstToplevel (dirTree s) of None \<Rightarrow> False | Some t \<Rightarrow> 0 < errSubDirCount t)
           \<and> \<not> dirPermissionsWarning s \<and> enableDirPermissionsWarning s
        then [PanelMessageAdd] else [])"
  by (simp add: readingFinished_def Let_def showDirPermissionsWarning_def)

lemma readingFinished_warning:
  "enableDirPermissionsWarning (readingFinished s) =
     (enableDirPermissionsWarning s
      \<and> \<not> ((case firstToplevel (dirTree s) of None \<Rightarrow> False | Some t \<Rightarrow> 0 < errSubDirCount t)
             \<and> \<not> dirPermissionsWarning s))"
  "dirPermissionsWarning (readingFinished s) =
     (dirPermissionsWarning s
      \<or> ((case firstToplevel (dirTree s) of None \<Rightarrow> False | Some t \<Rightarrow> 0 < errSubDirCount t)
          \<and> enableDirPermissionsWarning s))"
  by (auto simp add: readingFinished_def Let_def showDirPermissionsWarning_def)

lemma startingReading_frame [simp]:
  "enableDirPermissionsWarning (startingReading env s) = enableDirPermissionsWarning s"
  "dirPermissionsWarning (startingReading env s) = dirPermissionsWarning s"
  "futureSelection (startingReading env s) = futureSelection s"
  "historyButtons (startingReading env s) = historyButtons s"
  "dirTree (startingReading env s) = dirTree s"
  "selectionModel (startingReading env s) = selectionModel s"
  "treemapView (startingReading env s) = treemapView s"
  "actionShowTreemap (startingReading env s) = actionShowTreemap s"
  "fileDetailsViewVisible (startingReading env s) = fileDetailsViewVisible s"
  "updateTimer (startingReading env s) = True"
  "unreadableDirsWindow (startingReading env s) = False"
  "actions (startingReading env s) = actions (updateActions s)"
  "treeExpandTimer (startingReading env s) = treeExpandTimer (busyDisplay env s)"
  "effects (startingReading env s) = effects s @ StopWatchStart # newEffects s (busyDisplay env s)"
  by (simp_all add: startingReading_def busyDisplay_treeExpandTimer busyDisplay_effects newEffects_def)


section \<open>The settle timer and the completion of a scan\<close>

text \<open>
  Claim C7. At the start of a session \<^verbatim>\<open>busyDisplay()\<close> starts the one-shot timer exactly when
  the URL of the tree is not a package URL and the selection model has no current branch;
  otherwise the timer is left as it was. When the timer fires, the window expands the tree
  to level 1 and does nothing else.
\<close>

theorem settle_timer_armed_iff:
  "(TreeExpandTimerStart 200 \<in> set (newEffects s (busyDisplay env s))) =
     (\<not> isPkgUrl env (treeUrl (dirTree s)) \<and> currentBranch (selectionModel s) = None)
   \<and> (TreeExpandTimerStart 200 \<in> set (newEffects s (beginSession env s))) =
     (\<not> isPkgUrl env (treeUrl (dirTree s)) \<and> currentBranch (selectionModel s) = None)
   \<and> treeExpandTimer (beginSession env s) =
     (treeExpandTimer s \<or> (\<not> isPkgUrl env (treeUrl (dirTree s)) \<and> currentBranch (selectionModel s) = None))
   \<and> treeExpandTimerTimeout s = expandTreeToLevel 1 (s\<lparr>treeExpandTimer := False\<rparr>)
   \<and> newEffects s (treeExpandTimerTimeout s) = [ExpandToDepth 0]"
  by (simp add: newEffects_def busyDisplay_effects busyDisplay_treeExpandTimer beginSession_def
        treeExpandTimerTimeout_def expandTreeToLevel_emit)

theorem settle_timer_armed_iff_witness:
  "TreeExpandTimerStart 200 \<in> set (newEffects coldWindow (beginSession env0 coldWindow))
   \<and> treeExpandTimer (beginSession env0 coldWindow)
   \<and> TreeExpandTimerStart 200 \<notin> set (newEffects logsWindow (beginSession env0 logsWindow))
   \<and> \<not> treeExpandTimer (beginSession env0 logsWindow)
   \<and> newEffects coldWindow (treeExpandTimerTimeout coldWindow) = [ExpandToDepth 0]"
  using settle_timer_armed_iff [of coldWindow env0] settle_timer_armed_iff [of logsWindow env0]
  by (simp add: coldWindow_def logsWindow_def env0_def dataTree_def newEffects_def
        expandTreeToLevel_emit)

text \<open>
  Claim C3, as the spec states it: after \<^verbatim>\<open>beginSession\<close> and the completion of the scan the
  settle timer is not pending. It fails for a first scan that finishes before the timer
  fires: no future selection is pending, and the completion handler leaves the timer alone.
\<close>

theorem timer_pending_after_completion:
  "treeExpandTimer (onScanFinished (beginSession env0 coldWindow))
   \<and> treeExpandTimer (onScanAborted (beginSession env0 coldWindow))"
  by (simp add: onScanFinished_def onScanAborted_def beginSession_def idleDisplay_treeExpandTimer
        busyDisplay_treeExpandTimer FutureSelection_isEmpty_def coldWindow_def env0_def dataTree_def)

text \<open>
  Claim C3, amended. After \<^verbatim>\<open>beginSession\<close> and the completion of the scan, finished or
  aborted, the engine is idle. The completion handler cancels the settle timer when a future
  selection is pending; when none is pending it leaves the timer as it is, so that a timer
  armed at the start of the session that has not fired yet is still pending when the handler
  returns.
\<close>

theorem completion_idle_and_timer:
  "\<not> isBusy (dirTree (onScanFinished s)) \<and> \<not> isBusy (dirTree (onScanAborted s))
   \<and> treeExpandTimer (onScanFinished s) =
       (treeExpandTimer s \<and> FutureSelection_isEmpty (futureSelection s))
   \<and> treeExpandTimer (onScanAborted s) =
       (treeExpandTimer s \<and> FutureSelection_isEmpty (futureSelection s))
   \<and> \<not> isBusy (dirTree (onScanFinished (beginSession env s)))
   \<and> \<not> isBusy (dirTree (onScanAborted (beginSession env s)))
   \<and> treeExpandTimer (onScanFinished (beginSession env s)) =
       (FutureSelection_isEmpty (futureSelection s)
        \<and> (treeExpandTimer s
            \<or> (\<not> isPkgUrl env (treeUrl (dirTree s)) \<and> currentBranch (selectionModel s) = None)))
   \<and> treeExpandTimer (onScanAborted (beginSession env s)) =
       (FutureSelection_isEmpty (futureSelection s)
        \<and> (treeExpandTimer s
            \<or> (\<not> isPkgUrl env (treeUrl (dirTree s)) \<and> currentBranch (selectionModel s) = None)))"
  by (auto simp add: onScanFinished_def onScanAborted_def beginSession_def
        idleDisplay_treeExpandTimer busyDisplay_treeExpandTimer)

theorem completion_idle_and_timer_witness:
  "\<not> isBusy (dirTree (onScanFinished (beginSession env0 pendingWindow)))
   \<and> \<not> treeExpandTimer (onScanFinished (beginSession env0 pendingWindow))
   \<and> \<not> treeExpandTimer (onScanAborted (beginSession env0 vanishedWindow))
   \<and> \<not> isBusy (dirTree (onScanFinished (beginSession env0 coldWindow)))
   \<and> treeExpandTimer (onScanFinished (beginSession env0 coldWindow))"
  using completion_idle_and_timer [of pendingWindow env0] completion_idle_and_timer [of vanishedWindow env0]
    completion_idle_and_timer [of coldWindow env0]
  by (simp add: pendingWindow_def vanishedWindow_def coldWindow_def env0_def dataTree_def
        FutureSelection_isEmpty_def)

lemma selectsOrExpands_detailsShown [simp]:
  "filter selectsOrExpands (detailsShown visible sm) = []"
  by (simp add: detailsShown_def Let_def)

section \<open>The completion algorithm\<close>

text \<open>
  Claim C1, as the spec states it: a completion that runs while a future selection is
  pending leaves \<^verbatim>\<open>isEmpty()\<close> true, whether or not the target was found. It fails when the
  target has vanished from the rebuilt tree: \<^verbatim>\<open>applyFutureSelection()\<close> clears the future
  selection only inside \<^verbatim>\<open>if ( sel )\<close>.
\<close>

theorem vanished_target_stays_pending:
  "\<not> FutureSelection_isEmpty (futureSelection (onScanFinished vanishedWindow))
   \<and> \<not> FutureSelection_isEmpty (futureSelection (onScanAborted vanishedWindow))"
  by (simp add: onScanFinished_def onScanAborted_def idleDisplay_futureSelection
        vanishedWindow_def pendingWindow_def coldWindow_def dataTreeWithoutLogs_def
        dataDir_def mntDir_def subtree_def locate_def FutureSelection_isEmpty_def)

text \<open>
  Claim C1, amended. A completion, finished or aborted, that runs while a future selection
  is pending consumes it exactly when the target resolves against the rebuilt tree: then
  \<^verbatim>\<open>isEmpty()\<close> is true afterwards. When the target does not resolve, the future selection
  stays pending, unchanged.
\<close>

theorem futureSelection_consumed_iff_resolved:
  "\<not> FutureSelection_isEmpty (futureSelection s) \<Longrightarrow>
     FutureSelection_isEmpty (futureSelection (onScanFinished s)) =
       (subtree (futureSelection s) (dirTree s) \<noteq> None)
     \<and> FutureSelection_isEmpty (futureSelection (onScanAborted s)) =
       (subtree (futureSelection s) (dirTree s) \<noteq> None)
     \<and> (subtree (futureSelection s) (dirTree s) = None \<longrightarrow>
          futureSelection (onScanFinished s) = futureSelection s
          \<and> futureSelection (onScanAborted s) = futureSelection s)"
  by (cases "subtree (futureSelection s) (dirTree s)")
     (simp_all add: onScanFinished_def onScanAborted_def idleDisplay_futureSelection
        FutureSelection_isEmpty_def FutureSelection_clear_def)

theorem futureSelection_consumed_iff_resolved_witness:
  "FutureSelection_isEmpty (futureSelection (onScanFinished pendingWindow))
   \<and> FutureSelection_isEmpty (futureSelection (onScanAborted pendingWindow))
   \<and> futureSelection (onScanFinished vanishedWindow) = futureSelection vanishedWindow
   \<and> futureSelection (onScanAborted vanishedWindow) = futureSelection vanishedWindow"
  using futureSelection_consumed_iff_resolved [of pendingWindow]
    futureSelection_consumed_iff_resolved [of vanishedWindow]
  by (simp add: vanishedWindow_def pendingWindow_def coldWindow_def dataTreeWithoutLogs_def
        dataTree_def dataDir_def logsDir_def mntDir_def subtree_def locate_def
        FutureSelection_isEmpty_def)


lemma subseq_between:
  "subseq xs (pre @ xs @ post)"
  by (simp add: list_emb_append2 subseq_rev_drop_many)



section \<open>Invariants of the event-driven machine\<close>

lemma detailsShown_no_panel [simp]:
  "filter (\<lambda>e. e = PanelMessageAdd) (detailsShown visible sm) = []"
  by (simp add: detailsShown_def Let_def)

lemma panelCount_emit [simp]:
  "panelCount (emit e s) = panelCount s + (if e = PanelMessageAdd then 1 else 0)"
  by (simp add: panelCount_def)

lemma panelCount_field_update [simp]:
  "panelCount (s\<lparr>enableDirPermissionsWarning := x0\<rparr>) = panelCount s"
  "panelCount (s\<lparr>dirPermissionsWarning := x1\<rparr>) = panelCount s"
  "panelCount (s\<lparr>unreadableDirsWindow := x2\<rparr>) = panelCount s"
  "panelCount (s\<lparr>futureSelection := x3\<rparr>) = panelCount s"
  "panelCount (s\<lparr>updateTimer := x4\<rparr>) = panelCount s"
  "panelCount (s\<lparr>treeExpandTimer := x5\<rparr>) = panelCount s"
  "panelCount (s\<lparr>historyButtons := x6\<rparr>) = panelCount s"
  "panelCount (s\<lparr>dirTree := x7\<rparr>) = panelCount s"
  "panelCount (s\<lparr>selectionModel := x8\<rparr>) = panelCount s"
  "panelCount (s\<lparr>treemapView := x9\<rparr>) = panelCount s"
  "panelCount (s\<lparr>actionShowTreemap := x10\<rparr>) = panelCount s"
  "panelCount (s\<lparr>fileDetailsViewVisible := x11\<rparr>) = panelCount s"
  "panelCount (s\<lparr>actions := x12\<rparr>) = panelCount s"
  by (simp_all add: panelCount_def)

lemma panelCount_updateActions [simp]: "panelCount (updateActions s) = panelCount s"
  by (simp add: panelCount_def)

lemma panelCount_updateFileDetailsView [simp]: "panelCount (updateFileDetailsView s) = panelCount s"
  by (simp add: panelCount_def)

lemma panelCount_idleDisplay [simp]: "panelCount (idleDisplay s) = panelCount s"
  by (simp add: panelCount_def idleDisplay_effects split: option.splits)

lemma panelCount_busyDisplay [simp]: "panelCount (busyDisplay env s) = panelCount s"
  by (simp add: panelCount_def busyDisplay_effects)

lemma panelCount_setBusy [simp]: "panelCount (setBusy b s) = panelCount s"
  by (simp add: panelCount_def)

lemma panelCount_startingReading [simp]: "panelCount (startingReading env s) = panelCount s"
  by (simp add: startingReading_def)

lemma panelCount_readingAborted [simp]: "panelCount (readingAborted s) = panelCount s"
  by (simp add: readingAborted_def)

lemma panelCount_readingFinished:
  "panelCount (readingFinished s) =
     panelCount s
     + (if (case firstToplevel (dirTree s) of None \<Rightarrow> False | Some t \<Rightarrow> 0 < errSubDirCount t)
           \<and> \<not> dirPermissionsWarning s \<and> enableDirPermissionsWarning s
        then 1 else 0)"
  by (simp add: panelCount_def readingFinished_effects idleDisplay_effects split: option.splits)

lemma readingFinished_budget:
  "panelCount (readingFinished s) + (if enableDirPermissionsWarning (readingFinished s) then 1 else 0)
     = panelCount s + (if enableDirPermissionsWarning s then 1 else 0)"
  by (simp add: panelCount_readingFinished readingFinished_warning)

lemma refreshSelected_warning [simp]:
  "enableDirPermissionsWarning (refreshSelected env s) = enableDirPermissionsWarning s"
  "panelCount (refreshSelected env s) = panelCount s"
  by (simp_all add: refreshSelected_def Let_def panelCount_def busyDisplay_effects)

lemma refreshSelected_frame [simp]:
  "dirPermissionsWarning (refreshSelected env s) = dirPermissionsWarning s"
  "historyButtons (refreshSelected env s) = historyButtons s"
  "dirTree (refreshSelected env s) = dirTree s"
  "selectionModel (refreshSelected env s) = selectionModel s"
  "treemapView (refreshSelected env s) = treemapView s"
  "actionShowTreemap (refreshSelected env s) = actionShowTreemap s"
  "fileDetailsViewVisible (refreshSelected env s) = fileDetailsViewVisible s"
  "futureSelection (refreshSelected env s) =
     FutureSelection_set (first (selectedItems (selectionModel s))) (futureSelection s)"
  by (simp_all add: refreshSelected_def Let_def)

lemma readPkg_warning [simp]:
  "enableDirPermissionsWarning (readPkg u s) = enableDirPermissionsWarning s"
  "panelCount (readPkg u s) = panelCount s"
  by (simp_all add: readPkg_def expandTreeToLevel_emit)

lemma askOpenPkg_warning [simp]:
  "enableDirPermissionsWarning (askOpenPkg c u s) = enableDirPermissionsWarning s"
  "panelCount (askOpenPkg c u s) = panelCount s"
  by (simp_all add: askOpenPkg_def)

lemma askReadCache_warning [simp]:
  "enableDirPermissionsWarning (askReadCache f s) = enableDirPermissionsWarning s"
  "panelCount (askReadCache f s) = panelCount s"
  by (simp_all add: askReadCache_def readCache_def Let_def panelCount_def)

lemma stopReading_warning [simp]:
  "enableDirPermissionsWarning (stopReading s) = enableDirPermissionsWarning s"
  "panelCount (stopReading s) = panelCount s"
  by (simp_all add: stopReading_def)

lemma treeExpandTimerTimeout_warning [simp]:
  "enableDirPermissionsWarning (treeExpandTimerTimeout s) = enableDirPermissionsWarning s"
  "panelCount (treeExpandTimerTimeout s) = panelCount s"
  by (simp_all add: treeExpandTimerTimeout_def expandTreeToLevel_emit panelCount_def)

lemma showSummary_warning [simp]:
  "enableDirPermissionsWarning (showSummary s) = enableDirPermissionsWarning s"
  "panelCount (showSummary s) = panelCount s"
  by (simp_all add: showSummary_def showCurrent_def split: option.splits)

lemma selectionChanged_warning [simp]:
  "enableDirPermissionsWarning (selectionChanged s) = enableDirPermissionsWarning s"
  "panelCount (selectionChanged s) = panelCount s"
  by (simp_all add: selectionChanged_def)

lemma currentItemChanged_warning [simp]:
  "enableDirPermissionsWarning (currentItemChanged n old s) = enableDirPermissionsWarning s"
  "panelCount (currentItemChanged n old s) = panelCount s"
  by (simp_all add: currentItemChanged_def Let_def)

lemma step_not_arming:
  assumes "\<not> arming ev"
  shows "\<exists>s'. step env ev s = Inr s'
           \<and> (enableDirPermissionsWarning s' \<longrightarrow> enableDirPermissionsWarning s)
           \<and> panelCount s' + (if enableDirPermissionsWarning s' then 1 else 0)
               \<le> panelCount s + (if enableDirPermissionsWarning s then 1 else 0)"
proof (cases ev)
  case EvScanFinished
  then show ?thesis
    using readingFinished_budget [of "setBusy False s"]
    by (simp add: onScanFinished_def readingFinished_warning)
next
  case EvScanStarted
  then show ?thesis by (simp add: beginSession_def startingReading_def)
next
  case EvScanAborted
  then show ?thesis by (simp add: onScanAborted_def readingAborted_def)
next
  case (EvCurrentItemChanged n old)
  then show ?thesis by simp
next
  case EvPanelClosed
  then show ?thesis by simp
next
  case (EvCollaborators tree sm tm a b)
  then show ?thesis by simp
qed (use assms in simp_all)

lemma run_not_arming:
  assumes "\<forall>e \<in> set evs. \<not> arming e"
  shows "\<exists>s'. run env evs s = Inr s'
           \<and> (enableDirPermissionsWarning s' \<longrightarrow> enableDirPermissionsWarning s)
           \<and> panelCount s' + (if enableDirPermissionsWarning s' then 1 else 0)
               \<le> panelCount s + (if enableDirPermissionsWarning s then 1 else 0)"
  using assms
proof (induction evs arbitrary: s)
  case Nil
  then show ?case by simp
next
  case (Cons ev evs)
  from Cons.prems have "\<not> arming ev" by simp
  from step_not_arming [OF this, of env s] obtain s1 where
    s1: "step env ev s = Inr s1"
      "enableDirPermissionsWarning s1 \<longrightarrow> enableDirPermissionsWarning s"
      "panelCount s1 + (if enableDirPermissionsWarning s1 then 1 else 0)
         \<le> panelCount s + (if enableDirPermissionsWarning s then 1 else 0)"
    by blast
  from Cons.prems have "\<forall>e \<in> set evs. \<not> arming e" by simp
  from Cons.IH [OF this, of s1] obtain s2 where
    s2: "run env evs s1 = Inr s2"
      "enableDirPermissionsWarning s2 \<longrightarrow> enableDirPermissionsWarning s1"
      "panelCount s2 + (if enableDirPermissionsWarning s2 then 1 else 0)
         \<le> panelCount s1 + (if enableDirPermissionsWarning s1 then 1 else 0)"
    by blast
  have "run env (ev # evs) s = Inr s2" using s1(1) s2(1) by simp
  moreover have "enableDirPermissionsWarning s2 \<longrightarrow> enableDirPermissionsWarning s"
    using s1(2) s2(2) by blast
  moreover have "panelCount s2 + (if enableDirPermissionsWarning s2 then 1 else 0)
         \<le> panelCount s + (if enableDirPermissionsWarning s then 1 else 0)"
    using s1(3) s2(3) by linarith
  ultimately show ?case by blast
qed

section \<open>The permissions warning\<close>

text \<open>
  Claim C5. Showing the permissions warning panel clears the arming flag. Refresh-selected,
  a recomputation of the actions and an aborted scan leave the flag as it is, and no event
  other than an explicit open or a refresh of everything sets it. So over any sequence of
  such other events the panel is shown at most once, and not at all when the flag was not
  armed at the start. An open of a package URL or of a directory that can be read, and a
  refresh of everything of a tree with a URL, leave the flag armed.
\<close>

theorem permissions_warning_at_most_once:
  "(panelCount (showDirPermissionsWarning s) \<noteq> panelCount s \<longrightarrow>
      panelCount (showDirPermissionsWarning s) = Suc (panelCount s)
      \<and> \<not> enableDirPermissionsWarning (showDirPermissionsWarning s))
   \<and> enableDirPermissionsWarning (refreshSelected env s) = enableDirPermissionsWarning s
   \<and> enableDirPermissionsWarning (updateActions s) = enableDirPermissionsWarning s
   \<and> enableDirPermissionsWarning (onScanAborted s) = enableDirPermissionsWarning s
   \<and> ((\<forall>e \<in> set evs. \<not> arming e) \<longrightarrow>
        (\<exists>s'. run env evs s = Inr s'
           \<and> (enableDirPermissionsWarning s' \<longrightarrow> enableDirPermissionsWarning s)
           \<and> panelCount s' \<le> Suc (panelCount s)
           \<and> (\<not> enableDirPermissionsWarning s \<longrightarrow> panelCount s' \<le> panelCount s)))
   \<and> (isPkgUrl env u \<or> (\<not> isUnpkgUrl u \<and> \<not> openUrlThrows env u) \<longrightarrow>
        enableDirPermissionsWarning (openUrl env answers u s))
   \<and> (treeUrl (dirTree s) \<noteq> [] \<and> refreshAll env answers s = Inr s2 \<longrightarrow>
        enableDirPermissionsWarning s2)"
proof -
  have shown: "panelCount (showDirPermissionsWarning s) \<noteq> panelCount s \<longrightarrow>
      panelCount (showDirPermissionsWarning s) = Suc (panelCount s)
      \<and> \<not> enableDirPermissionsWarning (showDirPermissionsWarning s)"
    by (simp add: showDirPermissionsWarning_def panelCount_def)
  have aborted: "enableDirPermissionsWarning (onScanAborted s) = enableDirPermissionsWarning s"
    by (simp add: onScanAborted_def)
  have runs: "(\<forall>e \<in> set evs. \<not> arming e) \<longrightarrow>
        (\<exists>s'. run env evs s = Inr s'
           \<and> (enableDirPermissionsWarning s' \<longrightarrow> enableDirPermissionsWarning s)
           \<and> panelCount s' \<le> Suc (panelCount s)
           \<and> (\<not> enableDirPermissionsWarning s \<longrightarrow> panelCount s' \<le> panelCount s))"
  proof
    assume "\<forall>e \<in> set evs. \<not> arming e"
    from run_not_arming [OF this, of env s] obtain s' where
      s': "run env evs s = Inr s'"
        "enableDirPermissionsWarning s' \<longrightarrow> enableDirPermissionsWarning s"
        "panelCount s' + (if enableDirPermissionsWarning s' then 1 else 0)
           \<le> panelCount s + (if enableDirPermissionsWarning s then 1 else 0)"
      by blast
    have "panelCount s' \<le> Suc (panelCount s)"
      using s'(3) by (simp split: if_splits)
    moreover have "\<not> enableDirPermissionsWarning s \<longrightarrow> panelCount s' \<le> panelCount s"
      using s'(3) by (simp split: if_splits)
    ultimately show "\<exists>s'. run env evs s = Inr s'
           \<and> (enableDirPermissionsWarning s' \<longrightarrow> enableDirPermissionsWarning s)
           \<and> panelCount s' \<le> Suc (panelCount s)
           \<and> (\<not> enableDirPermissionsWarning s \<longrightarrow> panelCount s' \<le> panelCount s)"
      using s'(1,2) by blast
  qed
  have opened: "isPkgUrl env u \<or> (\<not> isUnpkgUrl u \<and> \<not> openUrlThrows env u) \<longrightarrow>
        enableDirPermissionsWarning (openUrl env answers u s)"
    by (auto simp add: Let_def expandTreeToLevel_emit)
  have refreshed: "treeUrl (dirTree s) \<noteq> [] \<and> refreshAll env answers s = Inr s2 \<longrightarrow>
        enableDirPermissionsWarning s2"
    by (auto simp add: refreshAll_def Let_def split: if_splits)
  from shown aborted runs opened refreshed show ?thesis
    by simp
qed

text \<open>
  With the warning armed and unreadable directories in the tree, the panel is shown once
  over two finished scans and an aborted refresh, although the user closed it in between.
\<close>

theorem permissions_warning_at_most_once_witness:
  "(case run env0 warningScript armedWindow of
      Inl x \<Rightarrow> False
    | Inr s' \<Rightarrow> panelCount s' = 1 \<and> \<not> enableDirPermissionsWarning s')
   \<and> panelCount (showDirPermissionsWarning armedWindow) = 1
   \<and> \<not> enableDirPermissionsWarning (showDirPermissionsWarning armedWindow)
   \<and> panelCount armedWindow = 0"
proof -
  have base: "panelCount armedWindow = 0" "enableDirPermissionsWarning armedWindow"
    "\<not> dirPermissionsWarning armedWindow"
    "firstToplevel (dirTree armedWindow) = Some (dataDir\<lparr>errSubDirCount := 3\<rparr>)"
    by (simp_all add: armedWindow_def coldWindow_def unreadableTree_def panelCount_def)
  show ?thesis
    using permissions_warning_at_most_once
      [of armedWindow env0 warningScript "''/data''" "[]" armedWindow]
    by (simp add: base warningScript_def onScanFinished_def onScanAborted_def beginSession_def
          panelCount_readingFinished readingFinished_warning showDirPermissionsWarning_def)
qed

section \<open>The fallback to the root stays off\<close>

lemma useRootFallback_kept [simp]:
  "useRootFallback (FutureSelection_clear fs) = useRootFallback fs"
  "useRootFallback (FutureSelection_set item fs) = useRootFallback fs"
  by (simp_all add: FutureSelection_clear_def FutureSelection_set_def split: option.splits)

lemma idleDisplay_useRootFallback [simp]:
  "useRootFallback (futureSelection (idleDisplay s)) = useRootFallback (futureSelection s)"
  by (simp add: idleDisplay_futureSelection split: option.splits)

lemma sendFinished_useRootFallback [simp]:
  "useRootFallback (futureSelection (sendFinished s)) = useRootFallback (futureSelection s)"
  by (simp add: sendFinished_def onScanFinished_def)

lemma readPkg_futureSelection [simp]: "futureSelection (readPkg u s) = futureSelection s"
  by (simp add: readPkg_def expandTreeToLevel_emit)

lemma showUnpkgFiles_useRootFallback [simp]:
  "useRootFallback (futureSelection (showUnpkgFiles env u s)) = useRootFallback (futureSelection s)"
  by (simp add: showUnpkgFiles_def Let_def)

lemma showSummary_frame [simp]:
  "dirPermissionsWarning (showSummary s) = dirPermissionsWarning s"
  "unreadableDirsWindow (showSummary s) = unreadableDirsWindow s"
  "futureSelection (showSummary s) = futureSelection s"
  "updateTimer (showSummary s) = updateTimer s"
  "treeExpandTimer (showSummary s) = treeExpandTimer s"
  "historyButtons (showSummary s) = historyButtons s"
  "dirTree (showSummary s) = dirTree s"
  "selectionModel (showSummary s) = selectionModel s"
  "treemapView (showSummary s) = treemapView s"
  "actionShowTreemap (showSummary s) = actionShowTreemap s"
  "fileDetailsViewVisible (showSummary s) = fileDetailsViewVisible s"
  "actions (showSummary s) = actions s"
  by (simp_all add: showSummary_def showCurrent_def split: option.splits)

lemma selectionChanged_frame [simp]:
  "dirPermissionsWarning (selectionChanged s) = dirPermissionsWarning s"
  "unreadableDirsWindow (selectionChanged s) = unreadableDirsWindow s"
  "futureSelection (selectionChanged s) = futureSelection s"
  "updateTimer (selectionChanged s) = updateTimer s"
  "treeExpandTimer (selectionChanged s) = treeExpandTimer s"
  "historyButtons (selectionChanged s) = historyButtons s"
  "dirTree (selectionChanged s) = dirTree s"
  "selectionModel (selectionChanged s) = selectionModel s"
  "treemapView (selectionChanged s) = treemapView s"
  "actionShowTreemap (selectionChanged s) = actionShowTreemap s"
  "fileDetailsViewVisible (selectionChanged s) = fileDetailsViewVisible s"
  "actions (selectionChanged s) = actions s"
  by (simp_all add: selectionChanged_def)

lemma currentItemChanged_frame [simp]:
  "dirPermissionsWarning (currentItemChanged n old s) = dirPermissionsWarning s"
  "unreadableDirsWindow (currentItemChanged n old s) = unreadableDirsWindow s"
  "futureSelection (currentItemChanged n old s) = futureSelection s"
  "updateTimer (currentItemChanged n old s) = updateTimer s"
  "treeExpandTimer (currentItemChanged n old s) = treeExpandTimer s"
  "historyButtons (currentItemChanged n old s) = historyButtons s"
  "dirTree (currentItemChanged n old s) = dirTree s"
  "selectionModel (currentItemChanged n old s) = selectionModel s"
  "treemapView (currentItemChanged n old s) = treemapView s"
  "actionShowTreemap (currentItemChanged n old s) = actionShowTreemap s"
  "fileDetailsViewVisible (currentItemChanged n old s) = fileDetailsViewVisible s"
  "actions (currentItemChanged n old s) = actions s"
  by (simp_all add: currentItemChanged_def Let_def)

lemma open_useRootFallback:
  "useRootFallback (futureSelection (openUrl env answers u s)) = useRootFallback (futureSelection s)"
  "useRootFallback (futureSelection (openDir env answers u s)) = useRootFallback (futureSelection s)"
  "useRootFallback (futureSelection (askOpenDir env answers s)) = useRootFallback (futureSelection s)"
  by (induction env answers u s and env answers u s and env answers s
        rule: openUrl_openDir_askOpenDir.induct)
     (simp_all add: Let_def expandTreeToLevel_emit)

lemma refreshAll_useRootFallback:
  "refreshAll env answers s = Inr s' \<Longrightarrow>
   useRootFallback (futureSelection s') = useRootFallback (futureSelection s)"
  by (auto simp add: refreshAll_def Let_def open_useRootFallback split: if_splits)

lemma step_useRootFallback:
  "step env ev s = Inr s' \<Longrightarrow>
   useRootFallback (futureSelection s') = useRootFallback (futureSelection s)"
  by (cases ev)
     (auto simp add: open_useRootFallback refreshAll_useRootFallback askOpenPkg_def
        askReadCache_def readCache_def Let_def stopReading_def beginSession_def
        onScanFinished_def onScanAborted_def treeExpandTimerTimeout_def expandTreeToLevel_emit
        split: if_splits)

lemma run_useRootFallback:
  "run env evs s = Inr s' \<Longrightarrow>
   useRootFallback (futureSelection s') = useRootFallback (futureSelection s)"
proof (induction evs arbitrary: s)
  case Nil
  then show ?case by simp
next
  case (Cons ev evs)
  then obtain s1 where s1: "step env ev s = Inr s1" "run env evs s1 = Inr s'"
    by (auto split: sum.splits)
  from Cons.IH [OF s1(2)] step_useRootFallback [OF s1(1)] show ?case by simp
qed

lemma MainWindow_ctor_useRootFallback:
  "\<not> useRootFallback (futureSelection (MainWindow_ctor raw))"
  by (simp add: MainWindow_ctor_def setUseRootFallback_def Let_def)


section \<open>A refresh target that has vanished\<close>

text \<open>
  Claim C6. The constructor configures the future selection without the fallback to the
  root, and in every state that the window reaches from there the fallback is still off.
  When in such a state a future selection is pending and its target cannot be located in
  the tree, a completion, finished or aborted, leaves the selection model as it is and
  makes no call that selects an item or that expands or collapses the tree.
\<close>

theorem vanished_target_selects_nothing:
  "\<not> useRootFallback (futureSelection (MainWindow_ctor raw))
   \<and> (run env evs (MainWindow_ctor raw) = Inr s \<longrightarrow> \<not> useRootFallback (futureSelection s))
   \<and> (run env evs (MainWindow_ctor raw) = Inr s
       \<and> \<not> FutureSelection_isEmpty (futureSelection s)
       \<and> locate (dirTree s) (targetUrl (futureSelection s)) = None \<longrightarrow>
         selectionModel (onScanFinished s) = selectionModel s
         \<and> selectionModel (onScanAborted s) = selectionModel s
         \<and> filter selectsOrExpands (newEffects s (onScanFinished s)) = []
         \<and> filter selectsOrExpands (newEffects s (onScanAborted s)) = [])"
proof -
  have reach: "run env evs (MainWindow_ctor raw) = Inr s \<longrightarrow> \<not> useRootFallback (futureSelection s)"
    using run_useRootFallback [of env evs "MainWindow_ctor raw" s] MainWindow_ctor_useRootFallback [of raw]
    by simp
  have untouched: "selectionModel (onScanFinished s) = selectionModel s
         \<and> selectionModel (onScanAborted s) = selectionModel s
         \<and> filter selectsOrExpands (newEffects s (onScanFinished s)) = []
         \<and> filter selectsOrExpands (newEffects s (onScanAborted s)) = []"
    if "\<not> useRootFallback (futureSelection s)"
      and "\<not> FutureSelection_isEmpty (futureSelection s)"
      and "locate (dirTree s) (targetUrl (futureSelection s)) = None"
  proof -
    from that have unresolved: "subtree (futureSelection s) (dirTree s) = None"
      by (simp add: subtree_def)
    with that(2) show ?thesis
      by (simp add: onScanFinished_def onScanAborted_def idleDisplay_selectionModel
            newEffects_def readingFinished_effects idleDisplay_effects)
  qed
  from reach untouched MainWindow_ctor_useRootFallback [of raw] show ?thesis
    by blast
qed

text \<open>
  The user asks to refresh \<^verbatim>\<open>/data/logs\<close> and the directory is deleted while the engine reads:
  the completion selects nothing, and the current branch stays unset.
\<close>

theorem vanished_target_selects_nothing_witness:
  "run env0 refreshScript (MainWindow_ctor coldWindow) = Inr afterRefreshScript
   \<and> targetUrl (futureSelection afterRefreshScript) = ''/data/logs''
   \<and> locate (dirTree afterRefreshScript) ''/data/logs'' = None
   \<and> selectionModel (onScanFinished afterRefreshScript) =
       \<lparr>currentItem = None, currentBranch = None, selectedItems = []\<rparr>
   \<and> filter selectsOrExpands (newEffects afterRefreshScript (onScanFinished afterRefreshScript)) = []"
proof -
  have script: "run env0 refreshScript (MainWindow_ctor coldWindow) = Inr afterRefreshScript"
    by (simp add: refreshScript_def afterRefreshScript_def)
  have state: "targetUrl (futureSelection afterRefreshScript) = ''/data/logs''"
    "dirTree afterRefreshScript = dataTreeWithoutLogs\<lparr>isBusy := True\<rparr>"
    "selectionModel afterRefreshScript = \<lparr>currentItem = None, currentBranch = None, selectedItems = []\<rparr>"
    by (simp_all add: afterRefreshScript_def FutureSelection_set_def first_def logsDir_def)
  have gone: "locate (dataTreeWithoutLogs\<lparr>isBusy := True\<rparr>) ''/data/logs'' = None"
    by (simp add: locate_def dataTreeWithoutLogs_def dataDir_def mntDir_def)
  show ?thesis
    using vanished_target_selects_nothing [of coldWindow env0 refreshScript afterRefreshScript]
    by (simp add: script state gone FutureSelection_isEmpty_def)
qed

section \<open>History and new top-level scans\<close>

text \<open>
  Claim C4 says that every new top-level open clears the browsing history. With the history
  \<^verbatim>\<open>/data\<close>, \<^verbatim>\<open>/data/logs\<close> the open-package dialog, answered with the filter \<^verbatim>\<open>Pkg:/\<close>, leaves
  the history as it is, while \<^verbatim>\<open>openUrl()\<close> with the same package URL, \<^verbatim>\<open>openUrl()\<close> with a
  directory and \<^verbatim>\<open>readCache()\<close> empty it.
\<close>

theorem askOpenPkg_keeps_history:
  "history (historyButtons (askOpenPkg False ''Pkg:/'' logsWindow)) = [''/data'', ''/data/logs'']
   \<and> history (historyButtons (openUrl env0 [] ''Pkg:/'' logsWindow)) = []
   \<and> history (historyButtons (openUrl env0 [] ''/data'' logsWindow)) = []
   \<and> history (historyButtons (readCache ''/tmp/cache'' logsWindow)) = []"
  by (simp add: askOpenPkg_def readPkg_def readCache_def expandTreeToLevel_emit Let_def
        clearHistory_def isUnpkgUrl_def env0_def logsWindow_def coldWindow_def)


section \<open>Further properties of action availability\<close>

text \<open>
  Extra X1. After a recomputation of the actions, stop-reading is enabled exactly while the
  engine is busy.
\<close>

theorem stopReading_enabled_iff_busy:
  "actionStopReading (actions (updateActions s)) = isBusy (dirTree s)"
  unfolding updateActions_def Let_def emit_def by simp

theorem stopReading_enabled_iff_busy_witness:
  "actionStopReading (actions (updateActions pendingWindow))
   \<and> \<not> actionStopReading (actions (updateActions logsWindow))"
  using stopReading_enabled_iff_busy [of pendingWindow] stopReading_enabled_iff_busy [of logsWindow]
  by (simp add: pendingWindow_def logsWindow_def coldWindow_def dataTree_def)

text \<open>
  Extra X2. The size, type and age statistics are enabled exactly when the engine is idle
  and either nothing is selected or the selection is one directory that is not a package
  entry.
\<close>

theorem statistics_enabled_iff:
  "actionFileSizeStats (actions (updateActions s)) =
     (\<not> isBusy (dirTree s)
      \<and> (selectedItems (selectionModel s) = []
          \<or> (\<exists>item. selectedItems (selectionModel s) = [item] \<and> isDir item \<and> \<not> isPkgInfo item)))
   \<and> actionFileTypeStats (actions (updateActions s)) =
       actionFileSizeStats (actions (updateActions s))
   \<and> actionFileAgeStats (actions (updateActions s)) =
       actionFileSizeStats (actions (updateActions s))"
  unfolding updateActions_def Let_def emit_def
  by (cases "selectedItems (selectionModel s)") (auto simp add: first_def split: list.splits)

theorem statistics_enabled_iff_witness:
  "actionFileSizeStats (actions (updateActions coldWindow))
   \<and> actionFileTypeStats (actions (updateActions logsWindow))
   \<and> \<not> actionFileAgeStats (actions (updateActions pendingWindow))"
  using statistics_enabled_iff [of coldWindow] statistics_enabled_iff [of logsWindow]
    statistics_enabled_iff [of pendingWindow]
  by (simp add: pendingWindow_def logsWindow_def coldWindow_def dataTree_def logsDir_def)

text \<open>
  Extra X3. Go-up is enabled exactly when there is a current item whose tree level is above
  1; go-to-toplevel exactly when the tree has a first top-level item and either there is no
  current item or its tree level is above 1.
\<close>

theorem navigation_enabled_iff:
  "actionGoUp (actions (updateActions s)) =
     (\<exists>c. currentItem (selectionModel s) = Some c \<and> 1 < treeLevel c)
   \<and> actionGoToToplevel (actions (updateActions s)) =
     (firstToplevel (dirTree s) \<noteq> None
      \<and> (currentItem (selectionModel s) = None
          \<or> (\<exists>c. currentItem (selectionModel s) = Some c \<and> 1 < treeLevel c)))"
  unfolding updateActions_def Let_def emit_def
  by (cases "currentItem (selectionModel s)") simp_all

theorem navigation_enabled_iff_witness:
  "actionGoUp (actions (updateActions logsWindow))
   \<and> actionGoToToplevel (actions (updateActions logsWindow))
   \<and> \<not> actionGoUp (actions (updateActions coldWindow))
   \<and> actionGoToToplevel (actions (updateActions coldWindow))"
  using navigation_enabled_iff [of logsWindow] navigation_enabled_iff [of coldWindow]
  by (simp add: logsWindow_def coldWindow_def dataTree_def logsDir_def)

text \<open>
  Extra X4. Continue-reading-at-mount-point is enabled exactly when the selection is one
  directory, not a package entry, that is a mount point; read-excluded-directory exactly
  when the selection is one such directory that is excluded.
\<close>

theorem mountPoint_and_excluded_enabled_iff:
  "actionContinueReadingAtMountPoint (actions (updateActions s)) =
     (\<exists>item. selectedItems (selectionModel s) = [item]
             \<and> isDir item \<and> \<not> isPkgInfo item \<and> isMountPoint item)
   \<and> actionReadExcludedDirectory (actions (updateActions s)) =
     (\<exists>item. selectedItems (selectionModel s) = [item]
             \<and> isDir item \<and> \<not> isPkgInfo item \<and> isExcluded item)"
  unfolding updateActions_def Let_def emit_def
  by (cases "selectedItems (selectionModel s)") (auto simp add: first_def split: list.splits)

theorem mountPoint_and_excluded_enabled_iff_witness:
  "actionContinueReadingAtMountPoint (actions (updateActions
      (logsWindow\<lparr>selectionModel := (selectionModel logsWindow)\<lparr>selectedItems := [mntDir]\<rparr>\<rparr>)))
   \<and> \<not> actionContinueReadingAtMountPoint (actions (updateActions logsWindow))
   \<and> \<not> actionReadExcludedDirectory (actions (updateActions logsWindow))"
  using mountPoint_and_excluded_enabled_iff
          [of "logsWindow\<lparr>selectionModel := (selectionModel logsWindow)\<lparr>selectedItems := [mntDir]\<rparr>\<rparr>"]
    mountPoint_and_excluded_enabled_iff [of logsWindow]
  by (simp add: logsWindow_def coldWindow_def dataTree_def logsDir_def mntDir_def)

text \<open>
  Extra X5. The enabled flags that \<^verbatim>\<open>updateActions()\<close> computes depend on nothing but the
  directory tree, the selection model, the treemap view and the history: two windows that
  agree on these four get the same flags.
\<close>

theorem updateActions_pure:
  "dirTree s' = dirTree s \<and> selectionModel s' = selectionModel s
   \<and> treemapView s' = treemapView s \<and> historyButtons s' = historyButtons s \<longrightarrow>
     actions (updateActions s') = actions (updateActions s)"
  using updateActions_actions_cong [of s' s] by blast

theorem updateActions_pure_witness:
  "actions (updateActions (armedWindow\<lparr>dirTree := dataTree\<rparr>)) = actions (updateActions coldWindow)"
  using updateActions_pure [of "armedWindow\<lparr>dirTree := dataTree\<rparr>" coldWindow]
  by (simp add: armedWindow_def coldWindow_def)

section \<open>Further properties of opening and stopping\<close>

lemma open_history_frames [simp]:
  "historyButtons (readPkg u s) = historyButtons s"
  "historyButtons (sendFinished s) = historyButtons s"
  "historyButtons (showUnpkgFiles env u s) = historyButtons s"
  by (simp_all add: readPkg_def sendFinished_def onScanFinished_def showUnpkgFiles_def Let_def
        expandTreeToLevel_emit)

lemma open_keeps_history_empty:
  "history (historyButtons (openUrl env answers u s)) = []"
  "history (historyButtons s) = [] \<longrightarrow> history (historyButtons (openDir env answers u s)) = []"
  "history (historyButtons s) = [] \<longrightarrow> history (historyButtons (askOpenDir env answers s)) = []"
  by (induction env answers u s and env answers u s and env answers s
        rule: openUrl_openDir_askOpenDir.induct)
     (simp_all add: Let_def expandTreeToLevel_emit clearHistory_def)

text \<open>
  Extra X6. \<^verbatim>\<open>openUrl()\<close> leaves the history empty, whatever the URL is (package, unpackaged
  files or directory), also when the directory cannot be opened and the user is asked again,
  whatever the answers are.
\<close>

theorem openUrl_clears_history:
  "history (historyButtons (openUrl env answers u s)) = []
   \<and> history (historyButtons (askOpenDir env ((u, crossFilesystems) # answers) s)) =
       (if u = [] then history (historyButtons s) else [])"
  by (simp add: open_keeps_history_empty del: openUrl.simps)

theorem openUrl_clears_history_witness:
  "history (historyButtons (openUrl env0 [(''/data'', False)] ''/gone'' logsWindow)) = []
   \<and> history (historyButtons (askOpenDir env0 [([], False)] logsWindow)) = [''/data'', ''/data/logs'']"
  using openUrl_clears_history [of env0 "[(''/data'', False)]" "''/gone''" logsWindow False]
    openUrl_clears_history [of env0 "[]" "[]" logsWindow False]
  by (simp add: logsWindow_def coldWindow_def)

text \<open>
  Extra X7. \<^verbatim>\<open>stopReading()\<close> while the engine is busy asks the engine to abort and shows a
  message; it does not change the busy flag or anything else of the tree, of the selection
  or of the timers.
\<close>

theorem stopReading_busy_requests_abort:
  "isBusy (dirTree s) \<longrightarrow>
     newEffects s (stopReading s) = [TreeAbortReading, StatusBarShowMessage ''Reading aborted.'']
     \<and> stopReading s = s\<lparr>effects := effects (stopReading s)\<rparr>"
  by (simp add: stopReading_def newEffects_def emit_def)

theorem stopReading_busy_requests_abort_witness:
  "newEffects pendingWindow (stopReading pendingWindow) =
     [TreeAbortReading, StatusBarShowMessage ''Reading aborted.'']
   \<and> isBusy (dirTree (stopReading pendingWindow))
   \<and> updateTimer (stopReading pendingWindow)"
  using stopReading_busy_requests_abort [of pendingWindow]
  by (simp add: stopReading_def pendingWindow_def coldWindow_def dataTree_def newEffects_def)

end
